theory Spec2Isabelle
  imports Complex_Main "HOL-Library.Word"
begin

section \<open>Machine types\<close>

text \<open>
  The firmware targets a 32-bit Arduino core: \<open>uint8_t\<close> is an 8-bit word and
  \<open>unsigned long\<close> (the type of \<open>millis()\<close>) a 32-bit word; both wrap around.
  A call of \<open>millis()\<close> is the argument \<open>now\<close> of the operation that makes it; an
  operation that reads the clock more than once reads the same value.
\<close>

type_synonym uint8 = "8 word"
type_synonym ulong = "32 word"

subsection \<open>The type \<open>float\<close>\<close>

text \<open>
  A \<open>float\<close> is an IEEE 754 binary32 value: not-a-number, or a number. Numbers are kept
  as reals; every arithmetic result is rounded to binary32 by \<open>fl32\<close>. The two infinities
  are not told apart from large numbers: the source only clamps and compares the values it
  is given, and its own arithmetic stays between 0 and 255.
\<close>

datatype float32 = NaN | Fin real

text \<open>Rounding to the nearest integer, a tie going to the even one.\<close>

definition rne :: "real \<Rightarrow> int" where
  "rne x = (let f = \<lfloor>x\<rfloor>; d = x - of_int f
            in if d < 1 / 2 then f else if d > 1 / 2 then f + 1 else if even f then f else f + 1)"

text \<open>
  The spacing of binary32 values around a positive \<open>x\<close>: a value in \<open>[2 ^ e, 2 ^ (e + 1))\<close>
  has 24 significant bits, so the spacing there is \<open>2 ^ (e - 23)\<close>. From 1 upwards the
  search starts at the spacing \<open>2 ^ -23\<close> of \<open>[1, 2)\<close> and doubles it (\<open>16777216 = 2 ^ 24\<close>);
  below 1 it starts at the spacing \<open>2 ^ -24\<close> of \<open>[1/2, 1)\<close> and halves it
  (\<open>8388608 = 2 ^ 23\<close>), down to the spacing \<open>2 ^ -149\<close> of the subnormal range.
\<close>

fun ulp_up :: "nat \<Rightarrow> real \<Rightarrow> real \<Rightarrow> real" where
  "ulp_up 0 u x = u"
| "ulp_up (Suc n) u x = (if x < u * 16777216 then u else ulp_up n (2 * u) x)"

fun ulp_down :: "nat \<Rightarrow> real \<Rightarrow> real \<Rightarrow> real" where
  "ulp_down 0 u x = u"
| "ulp_down (Suc n) u x = (if u * 8388608 \<le> x then u else ulp_down n (u / 2) x)"

definition ulp32 :: "real \<Rightarrow> real" where
  "ulp32 x = (if 1 \<le> x then ulp_up 127 (1 / 8388608) x else ulp_down 125 (1 / 16777216) x)"

text \<open>
  Rounding a real to binary32, to nearest with ties to even (the default rounding mode).
  Magnitudes of \<open>2 ^ 128\<close> and more, which round to an infinity, do not arise here.
\<close>

definition fl32 :: "real \<Rightarrow> real" where
  "fl32 x = (if x = 0 then 0
             else if 0 < x then (let u = ulp32 x in u * of_int (rne (x / u)))
             else (let u = ulp32 (- x) in - (u * of_int (rne (- x / u)))))"

text \<open>
  \<open>power * _calibration\<close> and \<open>_leftTargetPower * progress\<close>: the \<open>uint8_t\<close> operand is
  converted to \<open>float\<close> (exactly) and the product is a \<open>float\<close>.
\<close>

definition fmul_u8 :: "uint8 \<Rightarrow> float32 \<Rightarrow> float32" where
  "fmul_u8 p a = (case a of NaN \<Rightarrow> NaN | Fin x \<Rightarrow> Fin (fl32 (real (unat p) * x)))"

text \<open>\<open>(float)_currentAccelStep / _totalAccelSteps\<close>, used where the divisor is not 0.\<close>

definition fdiv_u8 :: "uint8 \<Rightarrow> uint8 \<Rightarrow> float32" where
  "fdiv_u8 a b = Fin (fl32 (real (unat a) / real (unat b)))"

text \<open>The comparison \<open>a != b\<close> of two floats: a not-a-number differs from everything.\<close>

definition fne :: "float32 \<Rightarrow> float32 \<Rightarrow> bool" where
  "fne a b = (case a of NaN \<Rightarrow> True | Fin x \<Rightarrow> (case b of NaN \<Rightarrow> True | Fin y \<Rightarrow> x \<noteq> y))"

text \<open>
  Conversion of a \<open>float\<close> to \<open>uint8_t\<close>: the fraction is discarded (towards zero). C++
  leaves the conversion of a not-a-number or of a value outside 0..255 undefined; here the
  first gives 0 and the second wraps.
\<close>

definition uint8_of_float :: "float32 \<Rightarrow> uint8" where
  "uint8_of_float a =
     (case a of NaN \<Rightarrow> 0 | Fin x \<Rightarrow> word_of_int (if x < 0 then \<lceil>x\<rceil> else \<lfloor>x\<rfloor>))"

text \<open>
  The macro \<open>constrain(amt, low, high)\<close> of the Arduino core,
  \<open>((amt)<(low)?(low):((amt)>(high)?(high):(amt)))\<close>: both comparisons are false for a
  not-a-number, which is returned as it is.
\<close>

definition constrain :: "float32 \<Rightarrow> real \<Rightarrow> real \<Rightarrow> float32" where
  "constrain amt low high =
     (case amt of NaN \<Rightarrow> NaN
      | Fin x \<Rightarrow> Fin (if x < low then low else if x > high then high else x))"

section \<open>Motor (Motor.h, Motor.cpp)\<close>

datatype MotorDirection = MOTOR_FORWARD | MOTOR_BACKWARD | MOTOR_STOPPED

text \<open>
  The hardware sink of a motor is its pair of PWM pins. \<open>m_pinForward\<close> and
  \<open>m_pinBackward\<close> are the duties the two pins hold (0 before the first write), and
  \<open>m_pins\<close> lists the pair of duties after each \<open>analogWrite\<close>, oldest first. \<open>m_sink\<close>
  lists the actuations: the pair (forward magnitude, backward magnitude) of each call of
  \<open>applyPower\<close>. Logger output is not modelled; the fields that decide whether to log are.
\<close>

record Motor =
  m_direction :: MotorDirection
  m_power :: uint8
  m_calibration :: float32
  m_lastReportedDirection :: MotorDirection
  m_lastReportedPower :: uint8
  m_pinForward :: uint8
  m_pinBackward :: uint8
  m_pins :: "(uint8 \<times> uint8) list"
  m_sink :: "(uint8 \<times> uint8) list"

definition Motor_init :: "float32 \<Rightarrow> Motor" where
  "Motor_init calibration =
     \<lparr> m_direction = MOTOR_STOPPED,
       m_power = 0,
       m_calibration = constrain calibration 0 1,
       m_lastReportedDirection = MOTOR_STOPPED,
       m_lastReportedPower = 0,
       m_pinForward = 0,
       m_pinBackward = 0,
       m_pins = [],
       m_sink = [] \<rparr>"

text \<open>\<open>analogWrite(_forwardPin, v)\<close> and \<open>analogWrite(_backwardPin, v)\<close>.\<close>

definition analogWriteForward :: "uint8 \<Rightarrow> Motor \<Rightarrow> Motor" where
  "analogWriteForward v m =
     m\<lparr> m_pinForward := v, m_pins := m_pins m @ [(v, m_pinBackward m)] \<rparr>"

definition analogWriteBackward :: "uint8 \<Rightarrow> Motor \<Rightarrow> Motor" where
  "analogWriteBackward v m =
     m\<lparr> m_pinBackward := v, m_pins := m_pins m @ [(m_pinForward m, v)] \<rparr>"

text \<open>\<open>applyPower\<close> writes the forward pin, then the backward pin.\<close>

definition applyPower :: "uint8 \<Rightarrow> uint8 \<Rightarrow> Motor \<Rightarrow> Motor" where
  "applyPower forwardPower backwardPower m =
     (let m1 = analogWriteForward forwardPower m;
          m2 = analogWriteBackward backwardPower m1
      in m2\<lparr> m_sink := m_sink m2 @ [(forwardPower, backwardPower)] \<rparr>)"

definition Motor_forward :: "uint8 \<Rightarrow> Motor \<Rightarrow> Motor" where
  "Motor_forward pw m =
     (let m1 = m\<lparr> m_direction := MOTOR_FORWARD, m_power := pw \<rparr>;
          calibratedPower = uint8_of_float (fmul_u8 pw (m_calibration m1));
          m2 = applyPower calibratedPower 0 m1
      in if m_lastReportedDirection m2 \<noteq> m_direction m2 \<or> m_lastReportedPower m2 \<noteq> m_power m2
         then m2\<lparr> m_lastReportedDirection := m_direction m2, m_lastReportedPower := m_power m2 \<rparr>
         else m2)"

definition Motor_backward :: "uint8 \<Rightarrow> Motor \<Rightarrow> Motor" where
  "Motor_backward pw m =
     (let m1 = m\<lparr> m_direction := MOTOR_BACKWARD, m_power := pw \<rparr>;
          calibratedPower = uint8_of_float (fmul_u8 pw (m_calibration m1));
          m2 = applyPower 0 calibratedPower m1
      in if m_lastReportedDirection m2 \<noteq> m_direction m2 \<or> m_lastReportedPower m2 \<noteq> m_power m2
         then m2\<lparr> m_lastReportedDirection := m_direction m2, m_lastReportedPower := m_power m2 \<rparr>
         else m2)"

definition Motor_stop :: "Motor \<Rightarrow> Motor" where
  "Motor_stop m =
     (let m1 = m\<lparr> m_direction := MOTOR_STOPPED, m_power := 0 \<rparr>;
          m2 = applyPower 0 0 m1
      in if m_lastReportedDirection m2 \<noteq> m_direction m2
         then m2\<lparr> m_lastReportedDirection := m_direction m2, m_lastReportedPower := m_power m2 \<rparr>
         else m2)"

definition Motor_begin :: "Motor \<Rightarrow> Motor" where
  "Motor_begin m = Motor_stop m"

definition Motor_setCalibration :: "float32 \<Rightarrow> Motor \<Rightarrow> Motor" where
  "Motor_setCalibration calibration m = m\<lparr> m_calibration := constrain calibration 0 1 \<rparr>"

section \<open>Telemetry (Telemetry.h, Telemetry.cpp)\<close>

record TelemetryData =
  leftMotorPower :: uint8
  rightMotorPower :: uint8
  leftMotorForward :: bool
  rightMotorForward :: bool
  leftCalibration :: float32
  rightCalibration :: float32
  batteryVoltage :: float32
  td_isAccelerating :: bool
  td_smoothEnabled :: bool
  timestamp :: ulong

text \<open>The static members of the class.\<close>

record Telemetry =
  t_data :: TelemetryData
  t_lastSendTime :: ulong
  t_interval :: ulong
  t_enabled :: bool
  t_dataChanged :: bool

text \<open>The values of the static initialisers.\<close>

definition Telemetry_static :: Telemetry where
  "Telemetry_static =
     \<lparr> t_data = \<lparr> leftMotorPower = 0, rightMotorPower = 0,
                  leftMotorForward = False, rightMotorForward = False,
                  leftCalibration = Fin 0, rightCalibration = Fin 0, batteryVoltage = Fin 0,
                  td_isAccelerating = False, td_smoothEnabled = False, timestamp = 0 \<rparr>,
       t_lastSendTime = 0,
       t_interval = 1000,
       t_enabled = True,
       t_dataChanged = False \<rparr>"

definition Telemetry_begin :: "ulong \<Rightarrow> ulong \<Rightarrow> Telemetry \<Rightarrow> Telemetry" where
  "Telemetry_begin ival now t =
     t\<lparr> t_interval := ival,
        t_lastSendTime := now,
        t_enabled := True,
        t_dataChanged := False,
        t_data := (t_data t)\<lparr> leftMotorPower := 0, rightMotorPower := 0,
                    leftMotorForward := True, rightMotorForward := True,
                    leftCalibration := Fin 1, rightCalibration := Fin 1, batteryVoltage := Fin 0,
                    td_isAccelerating := False, td_smoothEnabled := True, timestamp := 0 \<rparr> \<rparr>"

text \<open>\<open>BATTERY_PIN\<close> is not defined in the repository, so the battery branch is compiled out.\<close>

definition Telemetry_update ::
  "uint8 \<Rightarrow> uint8 \<Rightarrow> bool \<Rightarrow> bool \<Rightarrow> float32 \<Rightarrow> float32 \<Rightarrow> bool \<Rightarrow> bool \<Rightarrow> ulong \<Rightarrow> Telemetry \<Rightarrow> Telemetry" where
  "Telemetry_update leftPower rightPower leftForward rightForward leftCal rightCal accel smooth now t =
     (if leftMotorPower (t_data t) \<noteq> leftPower \<or>
         rightMotorPower (t_data t) \<noteq> rightPower \<or>
         leftMotorForward (t_data t) \<noteq> leftForward \<or>
         rightMotorForward (t_data t) \<noteq> rightForward \<or>
         fne (leftCalibration (t_data t)) leftCal \<or>
         fne (rightCalibration (t_data t)) rightCal \<or>
         td_isAccelerating (t_data t) \<noteq> accel \<or>
         td_smoothEnabled (t_data t) \<noteq> smooth
      then t\<lparr> t_data := (t_data t)\<lparr> leftMotorPower := leftPower, rightMotorPower := rightPower,
                    leftMotorForward := leftForward, rightMotorForward := rightForward,
                    leftCalibration := leftCal, rightCalibration := rightCal,
                    td_isAccelerating := accel, td_smoothEnabled := smooth,
                    timestamp := now \<rparr>,
              t_dataChanged := True \<rparr>
      else t)"

text \<open>
  \<open>send\<close> returns the record it printed, if any, with the new state. The record is the
  snapshot whose fields the source prints; its text encoding is not modelled.
\<close>

definition Telemetry_send :: "ulong \<Rightarrow> Telemetry \<Rightarrow> TelemetryData option \<times> Telemetry" where
  "Telemetry_send now t =
     (if \<not> t_enabled t then (None, t)
      else let currentTime = now in
        if currentTime - t_lastSendTime t \<ge> t_interval t \<and> t_dataChanged t
        then (let t1 = t\<lparr> t_lastSendTime := currentTime, t_dataChanged := False \<rparr>
              in (Some (t_data t1), t1))
        else (None, t))"

definition Telemetry_setInterval :: "ulong \<Rightarrow> Telemetry \<Rightarrow> Telemetry" where
  "Telemetry_setInterval ival t = t\<lparr> t_interval := ival \<rparr>"

section \<open>NonBlockingDelay (NonBlockingDelay.h, NonBlockingDelay.cpp)\<close>

record NonBlockingDelay =
  startTime :: ulong
  delayTime :: ulong
  running :: bool

definition NonBlockingDelay_start :: "ulong \<Rightarrow> ulong \<Rightarrow> NonBlockingDelay \<Rightarrow> NonBlockingDelay" where
  "NonBlockingDelay_start dt now d =
     (let d1 = (if dt > 0 then d\<lparr> delayTime := dt \<rparr> else d)
      in d1\<lparr> startTime := now, running := True \<rparr>)"

definition NonBlockingDelay_elapsed :: "ulong \<Rightarrow> NonBlockingDelay \<Rightarrow> bool \<times> NonBlockingDelay" where
  "NonBlockingDelay_elapsed now d =
     (if \<not> running d then (True, d)
      else let currentTime = now in
        if currentTime - startTime d \<ge> delayTime d
        then (True, d\<lparr> running := False \<rparr>)
        else (False, d))"

section \<open>MotionMotors (MotionMotors.h, MotionMotors.cpp)\<close>

definition DEFAULT_SMOOTH_ENABLED :: bool where
  "DEFAULT_SMOOTH_ENABLED = True"

definition SMOOTH_ACCEL_STEPS :: uint8 where
  "SMOOTH_ACCEL_STEPS = 10"

definition SMOOTH_ACCEL_DELAY :: ulong where
  "SMOOTH_ACCEL_DELAY = 20"

record AccelParams =
  steps :: uint8
  delayMs :: uint8

text \<open>The default argument \<open>{SMOOTH_ACCEL_STEPS, SMOOTH_ACCEL_DELAY}\<close> of the smooth helpers.\<close>

definition defaultParams :: AccelParams where
  "defaultParams = \<lparr> steps = SMOOTH_ACCEL_STEPS, delayMs = 20 \<rparr>"

text \<open>The static locals of \<open>MotionMotors::updateTelemetry\<close>.\<close>

record TelemetryLast =
  lastLeftPower :: uint8
  lastRightPower :: uint8
  lastLeftDir :: MotorDirection
  lastRightDir :: MotorDirection
  lastLeftCal :: float32
  lastRightCal :: float32
  lastAccel :: bool
  lastSmooth :: bool

text \<open>
  The engine's members, followed by the two pieces of static state its operations reach:
  the static locals of \<open>updateTelemetry\<close> and the static members of \<open>Telemetry\<close>.
\<close>

record MotionMotors =
  leftMotor :: Motor
  rightMotor :: Motor
  smoothEnabled :: bool
  lastAccelUpdateTime :: ulong
  currentAccelStep :: uint8
  totalAccelSteps :: uint8
  isAccelerating :: bool
  leftTargetDirection :: MotorDirection
  rightTargetDirection :: MotorDirection
  leftTargetPower :: uint8
  rightTargetPower :: uint8
  telemetryLast :: TelemetryLast
  telemetry :: Telemetry

text \<open>
  A \<open>Motor&\<close> argument of the smooth helpers is always one of the two members; the test
  \<open>&motor == &_leftMotor\<close> is a test on the channel.
\<close>

datatype Channel = LeftChannel | RightChannel

definition getMotor :: "Channel \<Rightarrow> MotionMotors \<Rightarrow> Motor" where
  "getMotor ch s = (case ch of LeftChannel \<Rightarrow> leftMotor s | RightChannel \<Rightarrow> rightMotor s)"

definition setMotor :: "Channel \<Rightarrow> Motor \<Rightarrow> MotionMotors \<Rightarrow> MotionMotors" where
  "setMotor ch m s =
     (case ch of LeftChannel \<Rightarrow> s\<lparr> leftMotor := m \<rparr> | RightChannel \<Rightarrow> s\<lparr> rightMotor := m \<rparr>)"

definition MotionMotors_init :: "float32 \<Rightarrow> float32 \<Rightarrow> MotionMotors" where
  "MotionMotors_init leftCalibration' rightCalibration' =
     \<lparr> leftMotor = Motor_init leftCalibration',
       rightMotor = Motor_init rightCalibration',
       smoothEnabled = DEFAULT_SMOOTH_ENABLED,
       lastAccelUpdateTime = 0,
       currentAccelStep = 0,
       totalAccelSteps = 0,
       isAccelerating = False,
       leftTargetDirection = MOTOR_STOPPED,
       rightTargetDirection = MOTOR_STOPPED,
       leftTargetPower = 0,
       rightTargetPower = 0,
       telemetryLast = \<lparr> lastLeftPower = 0, lastRightPower = 0,
                         lastLeftDir = MOTOR_STOPPED, lastRightDir = MOTOR_STOPPED,
                         lastLeftCal = Fin 0, lastRightCal = Fin 0,
                         lastAccel = False, lastSmooth = True \<rparr>,
       telemetry = Telemetry_static \<rparr>"

definition updateTelemetry :: "ulong \<Rightarrow> MotionMotors \<Rightarrow> MotionMotors" where
  "updateTelemetry now s =
     (let leftPower = m_power (leftMotor s);
          rightPower = m_power (rightMotor s);
          leftDir = m_direction (leftMotor s);
          rightDir = m_direction (rightMotor s);
          leftCal = m_calibration (leftMotor s);
          rightCal = m_calibration (rightMotor s);
          l = telemetryLast s
      in if leftPower \<noteq> lastLeftPower l \<or> rightPower \<noteq> lastRightPower l \<or>
            leftDir \<noteq> lastLeftDir l \<or> rightDir \<noteq> lastRightDir l \<or>
            fne leftCal (lastLeftCal l) \<or> fne rightCal (lastRightCal l) \<or>
            isAccelerating s \<noteq> lastAccel l \<or> smoothEnabled s \<noteq> lastSmooth l
         then (let leftForward' = (leftDir = MOTOR_FORWARD);
                   rightForward' = (rightDir = MOTOR_FORWARD)
               in s\<lparr> telemetry := Telemetry_update leftPower rightPower leftForward' rightForward'
                                      leftCal rightCal (isAccelerating s) (smoothEnabled s)
                                      now (telemetry s),
                      telemetryLast := \<lparr> lastLeftPower = leftPower, lastRightPower = rightPower,
                                         lastLeftDir = leftDir, lastRightDir = rightDir,
                                         lastLeftCal = leftCal, lastRightCal = rightCal,
                                         lastAccel = isAccelerating s,
                                         lastSmooth = smoothEnabled s \<rparr> \<rparr>)
         else s)"

definition MotionMotors_begin :: "ulong \<Rightarrow> MotionMotors \<Rightarrow> MotionMotors" where
  "MotionMotors_begin now s =
     (let s1 = s\<lparr> leftMotor := Motor_begin (leftMotor s) \<rparr>;
          s2 = s1\<lparr> rightMotor := Motor_begin (rightMotor s1) \<rparr>;
          s3 = s2\<lparr> telemetry := Telemetry_begin 1000 now (telemetry s2) \<rparr>
      in updateTelemetry now s3)"

text \<open>The three smooth helpers; \<open>ch\<close> is the motor passed by reference.\<close>

definition smoothAccelerate ::
  "Channel \<Rightarrow> MotorDirection \<Rightarrow> uint8 \<Rightarrow> AccelParams \<Rightarrow> ulong \<Rightarrow> MotionMotors \<Rightarrow> MotionMotors" where
  "smoothAccelerate ch direction targetPower params now s =
     (if \<not> smoothEnabled s
      then (let s1 = (if direction = MOTOR_FORWARD
                      then setMotor ch (Motor_forward targetPower (getMotor ch s)) s
                      else if direction = MOTOR_BACKWARD
                      then setMotor ch (Motor_backward targetPower (getMotor ch s)) s
                      else s)
            in updateTelemetry now s1)
      else (let s1 = (if ch = LeftChannel
                      then s\<lparr> leftTargetDirection := direction, leftTargetPower := targetPower,
                              rightTargetDirection := MOTOR_STOPPED, rightTargetPower := 0 \<rparr>
                      else s\<lparr> leftTargetDirection := MOTOR_STOPPED, leftTargetPower := 0,
                              rightTargetDirection := direction, rightTargetPower := targetPower \<rparr>);
                s2 = s1\<lparr> currentAccelStep := 0, totalAccelSteps := steps params,
                          lastAccelUpdateTime := now, isAccelerating := True \<rparr>
            in updateTelemetry now s2))"

definition smoothDecelerate ::
  "Channel \<Rightarrow> MotorDirection \<Rightarrow> uint8 \<Rightarrow> AccelParams \<Rightarrow> ulong \<Rightarrow> MotionMotors \<Rightarrow> MotionMotors" where
  "smoothDecelerate ch direction targetPower params now s =
     (if \<not> smoothEnabled s
      then (let s1 = (if targetPower = 0
                      then setMotor ch (Motor_stop (getMotor ch s)) s
                      else if direction = MOTOR_FORWARD
                      then setMotor ch (Motor_forward targetPower (getMotor ch s)) s
                      else if direction = MOTOR_BACKWARD
                      then setMotor ch (Motor_backward targetPower (getMotor ch s)) s
                      else s)
            in updateTelemetry now s1)
      else (let s1 = (if ch = LeftChannel
                      then s\<lparr> leftTargetDirection := (if targetPower = 0 then MOTOR_STOPPED else direction),
                              leftTargetPower := targetPower,
                              rightTargetDirection := MOTOR_STOPPED, rightTargetPower := 0 \<rparr>
                      else s\<lparr> leftTargetDirection := MOTOR_STOPPED, leftTargetPower := 0,
                              rightTargetDirection := (if targetPower = 0 then MOTOR_STOPPED else direction),
                              rightTargetPower := targetPower \<rparr>);
                s2 = s1\<lparr> currentAccelStep := 0, totalAccelSteps := steps params,
                          lastAccelUpdateTime := now, isAccelerating := True \<rparr>
            in updateTelemetry now s2))"

definition smoothTransition ::
  "Channel \<Rightarrow> MotorDirection \<Rightarrow> uint8 \<Rightarrow> AccelParams \<Rightarrow> ulong \<Rightarrow> MotionMotors \<Rightarrow> MotionMotors" where
  "smoothTransition ch newDirection targetPower params now s =
     (if \<not> smoothEnabled s
      then (let s1 = (if newDirection = MOTOR_FORWARD
                      then setMotor ch (Motor_forward targetPower (getMotor ch s)) s
                      else if newDirection = MOTOR_BACKWARD
                      then setMotor ch (Motor_backward targetPower (getMotor ch s)) s
                      else setMotor ch (Motor_stop (getMotor ch s)) s)
            in updateTelemetry now s1)
      else (let s0 = (if m_direction (getMotor ch s) \<noteq> MOTOR_STOPPED \<and>
                         m_direction (getMotor ch s) \<noteq> newDirection
                      then (setMotor ch (Motor_stop (getMotor ch s)) s)
                             \<lparr> currentAccelStep := 0, totalAccelSteps := totalAccelSteps s + 2 \<rparr>
                      else s);
                s1 = (if ch = LeftChannel
                      then s0\<lparr> leftTargetDirection := newDirection, leftTargetPower := targetPower,
                               rightTargetDirection := MOTOR_STOPPED, rightTargetPower := 0 \<rparr>
                      else s0\<lparr> leftTargetDirection := MOTOR_STOPPED, leftTargetPower := 0,
                               rightTargetDirection := newDirection, rightTargetPower := targetPower \<rparr>);
                s2 = s1\<lparr> currentAccelStep := 0, totalAccelSteps := steps params,
                          lastAccelUpdateTime := now, isAccelerating := True \<rparr>
            in updateTelemetry now s2))"

text \<open>The control operations. \<open>smooth\<close> is the operation's optional argument (default true).\<close>

definition leftForward :: "uint8 \<Rightarrow> bool \<Rightarrow> ulong \<Rightarrow> MotionMotors \<Rightarrow> MotionMotors" where
  "leftForward pw smooth now s =
     (let s1 = (if smooth \<and> smoothEnabled s
                then (if m_direction (leftMotor s) = MOTOR_FORWARD
                      then (if pw > m_power (leftMotor s)
                            then smoothAccelerate LeftChannel MOTOR_FORWARD pw defaultParams now s
                            else if pw < m_power (leftMotor s)
                            then smoothDecelerate LeftChannel MOTOR_FORWARD pw defaultParams now s
                            else s)
                      else smoothTransition LeftChannel MOTOR_FORWARD pw defaultParams now s)
                else s\<lparr> leftMotor := Motor_forward pw (leftMotor s) \<rparr>)
      in updateTelemetry now s1)"

definition leftBackward :: "uint8 \<Rightarrow> bool \<Rightarrow> ulong \<Rightarrow> MotionMotors \<Rightarrow> MotionMotors" where
  "leftBackward pw smooth now s =
     (let s1 = (if smooth \<and> smoothEnabled s
                then (if m_direction (leftMotor s) = MOTOR_BACKWARD
                      then (if pw > m_power (leftMotor s)
                            then smoothAccelerate LeftChannel MOTOR_BACKWARD pw defaultParams now s
                            else if pw < m_power (leftMotor s)
                            then smoothDecelerate LeftChannel MOTOR_BACKWARD pw defaultParams now s
                            else s)
                      else smoothTransition LeftChannel MOTOR_BACKWARD pw defaultParams now s)
                else s\<lparr> leftMotor := Motor_backward pw (leftMotor s) \<rparr>)
      in updateTelemetry now s1)"

definition rightForward :: "uint8 \<Rightarrow> bool \<Rightarrow> ulong \<Rightarrow> MotionMotors \<Rightarrow> MotionMotors" where
  "rightForward pw smooth now s =
     (let s1 = (if smooth \<and> smoothEnabled s
                then (if m_direction (rightMotor s) = MOTOR_FORWARD
                      then (if pw > m_power (rightMotor s)
                            then smoothAccelerate RightChannel MOTOR_FORWARD pw defaultParams now s
                            else if pw < m_power (rightMotor s)
                            then smoothDecelerate RightChannel MOTOR_FORWARD pw defaultParams now s
                            else s)
                      else smoothTransition RightChannel MOTOR_FORWARD pw defaultParams now s)
                else s\<lparr> rightMotor := Motor_forward pw (rightMotor s) \<rparr>)
      in updateTelemetry now s1)"

definition rightBackward :: "uint8 \<Rightarrow> bool \<Rightarrow> ulong \<Rightarrow> MotionMotors \<Rightarrow> MotionMotors" where
  "rightBackward pw smooth now s =
     (let s1 = (if smooth \<and> smoothEnabled s
                then (if m_direction (rightMotor s) = MOTOR_BACKWARD
                      then (if pw > m_power (rightMotor s)
                            then smoothAccelerate RightChannel MOTOR_BACKWARD pw defaultParams now s
                            else if pw < m_power (rightMotor s)
                            then smoothDecelerate RightChannel MOTOR_BACKWARD pw defaultParams now s
                            else s)
                      else smoothTransition RightChannel MOTOR_BACKWARD pw defaultParams now s)
                else s\<lparr> rightMotor := Motor_backward pw (rightMotor s) \<rparr>)
      in updateTelemetry now s1)"

definition leftStop :: "ulong \<Rightarrow> MotionMotors \<Rightarrow> MotionMotors" where
  "leftStop now s =
     (let s1 = (if smoothEnabled s \<and> m_power (leftMotor s) > 0
                then smoothDecelerate LeftChannel (m_direction (leftMotor s)) 0 defaultParams now s
                else s\<lparr> leftMotor := Motor_stop (leftMotor s) \<rparr>)
      in updateTelemetry now s1)"

definition rightStop :: "ulong \<Rightarrow> MotionMotors \<Rightarrow> MotionMotors" where
  "rightStop now s =
     (let s1 = (if smoothEnabled s \<and> m_power (rightMotor s) > 0
                then smoothDecelerate RightChannel (m_direction (rightMotor s)) 0 defaultParams now s
                else s\<lparr> rightMotor := Motor_stop (rightMotor s) \<rparr>)
      in updateTelemetry now s1)"

definition stop :: "ulong \<Rightarrow> MotionMotors \<Rightarrow> MotionMotors" where
  "stop now s =
     (let s1 = leftStop now s;
          s2 = rightStop now s1;
          s3 = s2\<lparr> isAccelerating := False \<rparr>
      in updateTelemetry now s3)"

definition setSmoothEnabled :: "bool \<Rightarrow> ulong \<Rightarrow> MotionMotors \<Rightarrow> MotionMotors" where
  "setSmoothEnabled enable now s = updateTelemetry now (s\<lparr> smoothEnabled := enable \<rparr>)"

definition setLeftCalibration :: "float32 \<Rightarrow> ulong \<Rightarrow> MotionMotors \<Rightarrow> MotionMotors" where
  "setLeftCalibration calibration now s =
     updateTelemetry now (s\<lparr> leftMotor := Motor_setCalibration calibration (leftMotor s) \<rparr>)"

definition setRightCalibration :: "float32 \<Rightarrow> ulong \<Rightarrow> MotionMotors \<Rightarrow> MotionMotors" where
  "setRightCalibration calibration now s =
     updateTelemetry now (s\<lparr> rightMotor := Motor_setCalibration calibration (rightMotor s) \<rparr>)"

text \<open>
  The ramp stepper. \<open>progress\<close> is \<open>(float)_currentAccelStep / _totalAccelSteps\<close>; it is
  computed only where \<open>_currentAccelStep < _totalAccelSteps\<close>, so the divisor is not zero.
\<close>

definition updateAcceleration :: "ulong \<Rightarrow> MotionMotors \<Rightarrow> MotionMotors" where
  "updateAcceleration now s =
     (if \<not> isAccelerating s \<or> \<not> smoothEnabled s then s
      else let currentTime = now in
        if currentTime - lastAccelUpdateTime s < SMOOTH_ACCEL_DELAY then s
        else let s1 = s\<lparr> lastAccelUpdateTime := currentTime,
                          currentAccelStep := currentAccelStep s + 1 \<rparr> in
          if currentAccelStep s1 \<ge> totalAccelSteps s1
          then (let s2 = (if leftTargetDirection s1 \<noteq> MOTOR_STOPPED
                          then (if leftTargetDirection s1 = MOTOR_FORWARD
                                then s1\<lparr> leftMotor := Motor_forward (leftTargetPower s1) (leftMotor s1) \<rparr>
                                else s1\<lparr> leftMotor := Motor_backward (leftTargetPower s1) (leftMotor s1) \<rparr>)
                          else s1);
                    s3 = (if rightTargetDirection s2 \<noteq> MOTOR_STOPPED
                          then (if rightTargetDirection s2 = MOTOR_FORWARD
                                then s2\<lparr> rightMotor := Motor_forward (rightTargetPower s2) (rightMotor s2) \<rparr>
                                else s2\<lparr> rightMotor := Motor_backward (rightTargetPower s2) (rightMotor s2) \<rparr>)
                          else s2);
                    s4 = s3\<lparr> isAccelerating := False \<rparr>
                in updateTelemetry now s4)
          else (let progress = fdiv_u8 (currentAccelStep s1) (totalAccelSteps s1);
                    s2 = (if leftTargetDirection s1 \<noteq> MOTOR_STOPPED
                          then (let pw = uint8_of_float (fmul_u8 (leftTargetPower s1) progress)
                                in if leftTargetDirection s1 = MOTOR_FORWARD
                                   then s1\<lparr> leftMotor := Motor_forward pw (leftMotor s1) \<rparr>
                                   else s1\<lparr> leftMotor := Motor_backward pw (leftMotor s1) \<rparr>)
                          else s1);
                    s3 = (if rightTargetDirection s2 \<noteq> MOTOR_STOPPED
                          then (let pw = uint8_of_float (fmul_u8 (rightTargetPower s2) progress)
                                in if rightTargetDirection s2 = MOTOR_FORWARD
                                   then s2\<lparr> rightMotor := Motor_forward pw (rightMotor s2) \<rparr>
                                   else s2\<lparr> rightMotor := Motor_backward pw (rightMotor s2) \<rparr>)
                          else s2)
                in if currentAccelStep s3 mod 3 = 0 then updateTelemetry now s3 else s3))"

section \<open>Runs of the engine\<close>

text \<open>
  The surrounding loop calls \<open>updateAcceleration\<close> again and again; \<open>polls\<close> is a run
  of such calls at the given clock readings, and \<open>leftPowers\<close> lists the power of the left
  motor after each of them.
\<close>

fun polls :: "ulong list \<Rightarrow> MotionMotors \<Rightarrow> MotionMotors" where
  "polls [] s = s"
| "polls (t # ts) s = polls ts (updateAcceleration t s)"

fun leftPowers :: "ulong list \<Rightarrow> MotionMotors \<Rightarrow> uint8 list" where
  "leftPowers [] s = []"
| "leftPowers (t # ts) s =
     (let s' = updateAcceleration t s in m_power (leftMotor s') # leftPowers ts s')"

text \<open>The public operations of the engine as commands, each run at a clock reading.\<close>

datatype Command =
    LeftForward uint8 bool
  | LeftBackward uint8 bool
  | RightForward uint8 bool
  | RightBackward uint8 bool
  | LeftStop
  | RightStop
  | Stop
  | SetSmoothEnabled bool
  | SetLeftCalibration float32
  | SetRightCalibration float32
  | UpdateAcceleration

fun exec :: "Command \<Rightarrow> ulong \<Rightarrow> MotionMotors \<Rightarrow> MotionMotors" where
  "exec (LeftForward pw smooth) now s = leftForward pw smooth now s"
| "exec (LeftBackward pw smooth) now s = leftBackward pw smooth now s"
| "exec (RightForward pw smooth) now s = rightForward pw smooth now s"
| "exec (RightBackward pw smooth) now s = rightBackward pw smooth now s"
| "exec LeftStop now s = leftStop now s"
| "exec RightStop now s = rightStop now s"
| "exec Stop now s = stop now s"
| "exec (SetSmoothEnabled enable) now s = setSmoothEnabled enable now s"
| "exec (SetLeftCalibration c) now s = setLeftCalibration c now s"
| "exec (SetRightCalibration c) now s = setRightCalibration c now s"
| "exec UpdateAcceleration now s = updateAcceleration now s"

fun run :: "(ulong \<times> Command) list \<Rightarrow> MotionMotors \<Rightarrow> MotionMotors" where
  "run [] s = s"
| "run ((now, c) # cs) s = run cs (exec c now s)"


text \<open>
  Reading the actuations from the oldest on: \<open>scan fwd xs\<close> is \<open>None\<close> when some
  actuation has both magnitudes nonzero, or when a nonzero backward magnitude follows a
  nonzero forward magnitude with no actuation \<open>(0, 0)\<close> in between; otherwise it tells
  whether a forward magnitude is still standing at the end. \<open>fwd\<close> says whether one stands
  at the start.
\<close>

fun scan :: "bool \<Rightarrow> (uint8 \<times> uint8) list \<Rightarrow> bool option" where
  "scan fwd [] = Some fwd"
| "scan fwd ((f, b) # xs) =
     (if f \<noteq> 0 \<and> b \<noteq> 0 then None
      else if b \<noteq> 0 then (if fwd then None else scan False xs)
      else if f \<noteq> 0 then scan True xs
      else scan False xs)"


text \<open>No pair of the list is nonzero on both sides.\<close>

definition one_side_zero :: "(uint8 \<times> uint8) list \<Rightarrow> bool" where
  "one_side_zero xs = list_all (\<lambda>(f, b). f = 0 \<or> b = 0) xs"

text \<open>
  The invariants behind reversal safety on the smooth path: the actuations so far are
  safe, no pin pair was ever nonzero on both sides, a pin other than the one of the
  motor's direction holds 0, and a ramp target never opposes the motor's direction.
\<close>

definition motor_inv :: "Motor \<Rightarrow> bool" where
  "motor_inv m \<longleftrightarrow>
     (case scan False (m_sink m) of None \<Rightarrow> False
      | Some fl \<Rightarrow> fl \<longrightarrow> m_direction m = MOTOR_FORWARD) \<and>
     one_side_zero (m_pins m) \<and>
     (m_direction m \<noteq> MOTOR_BACKWARD \<longrightarrow> m_pinBackward m = 0) \<and>
     (m_direction m \<noteq> MOTOR_FORWARD \<longrightarrow> m_pinForward m = 0)"

definition engine_inv :: "MotionMotors \<Rightarrow> bool" where
  "engine_inv s \<longleftrightarrow>
     smoothEnabled s \<and> motor_inv (leftMotor s) \<and> motor_inv (rightMotor s) \<and>
     (leftTargetDirection s = MOTOR_BACKWARD \<longrightarrow> m_direction (leftMotor s) \<noteq> MOTOR_FORWARD) \<and>
     (leftTargetDirection s = MOTOR_FORWARD \<longrightarrow> m_direction (leftMotor s) \<noteq> MOTOR_BACKWARD) \<and>
     (rightTargetDirection s = MOTOR_BACKWARD \<longrightarrow> m_direction (rightMotor s) \<noteq> MOTOR_FORWARD) \<and>
     (rightTargetDirection s = MOTOR_FORWARD \<longrightarrow> m_direction (rightMotor s) \<noteq> MOTOR_BACKWARD)"

text \<open>
  A poll makes a ramp step when a ramp is in progress, smoothing is on and the delay has
  passed; \<open>stepPower\<close> is the power that step commands on a channel with the given target.
\<close>

definition steps_now :: "ulong \<Rightarrow> MotionMotors \<Rightarrow> bool" where
  "steps_now now s \<longleftrightarrow>
     isAccelerating s \<and> smoothEnabled s \<and> \<not> now - lastAccelUpdateTime s < SMOOTH_ACCEL_DELAY"

definition stepPower :: "MotionMotors \<Rightarrow> uint8 \<Rightarrow> uint8" where
  "stepPower s target =
     (if currentAccelStep s + 1 \<ge> totalAccelSteps s then target
      else uint8_of_float (fmul_u8 target (fdiv_u8 (currentAccelStep s + 1) (totalAccelSteps s))))"

subsection \<open>Example states\<close>

text \<open>The engine after construction with calibrations 1.0 and \<open>begin()\<close> at time 0.\<close>

definition powerUp :: MotionMotors where
  "powerUp = MotionMotors_begin 0 (MotionMotors_init (Fin 1) (Fin 1))"

text \<open>The left motor driven forward at 100, immediately.\<close>

definition movingForward :: MotionMotors where
  "movingForward = leftForward 100 False 0 powerUp"

text \<open>A smooth start of the left motor towards 200, after the first ramp step.\<close>

definition ramping :: MotionMotors where
  "ramping = updateAcceleration 20 (leftForward 200 True 0 powerUp)"

text \<open>Telemetry after \<open>begin\<close> at time 0 and one update at time 7.\<close>

definition tele0 :: Telemetry where
  "tele0 = Telemetry_update 200 0 True True (Fin 1) (Fin 1) False True 7
             (Telemetry_begin 1000 0 Telemetry_static)"

text \<open>The left motor at 200 (immediate), from which a smooth change to 100 takes the
  decelerate path.\<close>

definition cruising :: MotionMotors where
  "cruising = leftForward 200 False 0 powerUp"

text \<open>A smooth start of the left motor towards 200 after nine of its ten ramp steps.\<close>

definition lastStep :: MotionMotors where
  "lastStep = polls [20, 40, 60, 80, 100, 120, 140, 160, 180] (leftForward 200 True 0 powerUp)"

text \<open>A smooth start of the right motor towards 200, after the first ramp step.\<close>

definition rightRamping :: MotionMotors where
  "rightRamping = updateAcceleration 20 (rightForward 200 True 0 powerUp)"


text \<open>Telemetry after \<open>begin\<close> at time 0, before any update.\<close>

definition teleBegin :: Telemetry where
  "teleBegin = Telemetry_begin 1000 0 Telemetry_static"

text \<open>A motor with calibration 0.5, and one with the binary32 calibration \<open>16693747 / 2 ^ 24\<close>
  (about 0.99502486), both after \<open>begin()\<close>.\<close>

definition motorHalf :: Motor where
  "motorHalf = Motor_begin (Motor_init (Fin (1 / 2)))"

definition motorOdd :: Motor where
  "motorOdd = Motor_begin (Motor_init (Fin (16693747 / 16777216)))"

text \<open>A motor whose calibration is the binary32 value nearest to 0.95, \<open>15938355 / 2 ^ 24\<close>:
  what one calibration step of 0.05 down from 1.0 stores.\<close>

definition motorStep :: Motor where
  "motorStep = Motor_begin (Motor_init (Fin (fl32 (19 / 20))))"

text \<open>A ramp, a telemetry state and a timer, each started 10 ms before the 32-bit clock wraps.\<close>

definition nearWrap :: MotionMotors where
  "nearWrap = leftForward 200 True 4294967286 powerUp"

definition teleNearWrap :: Telemetry where
  "teleNearWrap = Telemetry_update 200 0 True True (Fin 1) (Fin 1) False True 4294967286
                    (Telemetry_begin 25 4294967286 Telemetry_static)"

definition delayNearWrap :: NonBlockingDelay where
  "delayNearWrap = NonBlockingDelay_start 25 4294967286 \<lparr> startTime = 0, delayTime = 0, running = False \<rparr>"

section \<open>Rounding to binary32\<close>

lemma rne_ge: "of_int m \<le> y \<Longrightarrow> m \<le> rne y"
proof -
  assume "of_int m \<le> y"
  then have "m \<le> \<lfloor>y\<rfloor>"
    by (simp add: le_floor_iff)
  then show ?thesis
    by (simp add: rne_def Let_def)
qed

lemma rne_le: "y \<le> of_int m \<Longrightarrow> rne y \<le> m"
proof -
  assume a: "y \<le> of_int m"
  then have f: "\<lfloor>y\<rfloor> \<le> m"
    by (simp add: floor_le_iff)
  show ?thesis
  proof (cases "\<lfloor>y\<rfloor> = m")
    case True
    then have "of_int m \<le> y"
      using of_int_floor_le [of y] by simp
    then have "y = of_int \<lfloor>y\<rfloor>"
      using a True by simp
    then have "y - of_int \<lfloor>y\<rfloor> = 0"
      by simp
    then show ?thesis
      using True by (simp add: rne_def Let_def)
  next
    case False
    then have "\<lfloor>y\<rfloor> + 1 \<le> m"
      using f by simp
    then show ?thesis
      using f by (simp add: rne_def Let_def)
  qed
qed

lemma ulp_up_form:
  "0 < u \<Longrightarrow> x < u * 2 ^ m * 16777216 \<Longrightarrow> m \<le> n \<Longrightarrow> \<exists>i\<le>m. ulp_up n u x = u * 2 ^ i"
proof (induction n arbitrary: u m)
  case 0
  then show ?case by simp
next
  case (Suc n)
  show ?case
  proof (cases "x < u * 16777216")
    case True
    then show ?thesis by (intro exI [of _ 0]) simp
  next
    case False
    then obtain m' where m: "m = Suc m'"
      using Suc.prems(2) by (cases m) auto
    have "\<exists>i\<le>m'. ulp_up n (2 * u) x = (2 * u) * 2 ^ i"
      using Suc.prems m by (intro Suc.IH) (simp_all add: mult.assoc mult.left_commute)
    then obtain i where "i \<le> m'" and "ulp_up n (2 * u) x = (2 * u) * 2 ^ i"
      by blast
    then show ?thesis
      using False m by (intro exI [of _ "Suc i"]) simp
  qed
qed

lemma ulp_down_form: "\<exists>i\<le>n. ulp_down n u x = u / 2 ^ i"
proof (induction n arbitrary: u)
  case 0
  then show ?case by simp
next
  case (Suc n)
  show ?case
  proof (cases "u * 8388608 \<le> x")
    case True
    then show ?thesis by (intro exI [of _ 0]) simp
  next
    case False
    obtain i where "i \<le> n" and "ulp_down n (u / 2) x = u / 2 / 2 ^ i"
      using Suc.IH [of "u / 2"] by blast
    then show ?thesis
      using False by (intro exI [of _ "Suc i"]) simp
  qed
qed

lemma ulp32_small:
  assumes "x < 256"
  shows "\<exists>j\<ge>16. ulp32 x = 1 / 2 ^ j"
proof (cases "1 \<le> x")
  case True
  have "x < 1 / 8388608 * 2 ^ 7 * 16777216"
    using assms by simp
  then obtain i where i: "i \<le> 7" and u: "ulp_up 127 (1 / 8388608) x = 1 / 8388608 * 2 ^ i"
    using ulp_up_form [of "1 / 8388608" x 7 127] by auto
  have "(2::real) ^ 23 = 2 ^ ((23 - i) + i)"
    using i by simp
  also have "\<dots> = 2 ^ (23 - i) * 2 ^ i"
    by (rule power_add)
  finally have "(8388608::real) = 2 ^ (23 - i) * 2 ^ i"
    by simp
  then have "1 / 8388608 * (2::real) ^ i = 1 / 2 ^ (23 - i)"
    by (simp add: field_simps)
  then show ?thesis
    using True u i by (intro exI [of _ "23 - i"]) (simp add: ulp32_def)
next
  case False
  obtain i where "ulp_down 125 (1 / 16777216) x = 1 / 16777216 / 2 ^ i"
    using ulp_down_form [of 125 "1 / 16777216" x] by blast
  moreover have "1 / 16777216 / (2::real) ^ i = 1 / 2 ^ (24 + i)"
    by (simp add: power_add)
  ultimately show ?thesis
    using False by (intro exI [of _ "24 + i"]) (simp add: ulp32_def)
qed

lemma fl32_pos:
  assumes "0 < x" and "ulp32 x = 1 / 2 ^ j"
  shows "fl32 x = of_int (rne (x * 2 ^ j)) / 2 ^ j"
  using assms by (simp add: fl32_def Let_def)

lemma fl32_ge_int:
  assumes "0 < x" and "x < 256" and "of_int a \<le> x"
  shows "of_int a \<le> fl32 x"
proof -
  obtain j where u: "ulp32 x = 1 / 2 ^ j"
    using ulp32_small [OF assms(2)] by blast
  have "of_int (a * 2 ^ j) \<le> x * 2 ^ j"
    using assms(3) by simp
  then have "a * 2 ^ j \<le> rne (x * 2 ^ j)"
    by (rule rne_ge)
  then have "(of_int (a * 2 ^ j) :: real) \<le> of_int (rne (x * 2 ^ j))"
    by (simp only: of_int_le_iff)
  then have "of_int a * 2 ^ j \<le> (of_int (rne (x * 2 ^ j)) :: real)"
    by simp
  then show ?thesis
    unfolding fl32_pos [OF assms(1) u] by (simp add: pos_le_divide_eq)
qed

lemma fl32_le_int:
  assumes "0 < x" and "x < 256" and "x \<le> of_int b"
  shows "fl32 x \<le> of_int b"
proof -
  obtain j where u: "ulp32 x = 1 / 2 ^ j"
    using ulp32_small [OF assms(2)] by blast
  have "x * 2 ^ j \<le> of_int (b * 2 ^ j)"
    using assms(3) by simp
  then have "rne (x * 2 ^ j) \<le> b * 2 ^ j"
    by (rule rne_le)
  then have "(of_int (rne (x * 2 ^ j)) :: real) \<le> of_int (b * 2 ^ j)"
    by (simp only: of_int_le_iff)
  then have "(of_int (rne (x * 2 ^ j)) :: real) \<le> of_int b * 2 ^ j"
    by simp
  then show ?thesis
    unfolding fl32_pos [OF assms(1) u] by (simp add: pos_divide_le_eq)
qed

lemma fl32_less_int:
  assumes "0 < x" and "x < 256" and "x \<le> of_int b - 1 / 65536"
  shows "fl32 x < of_int b"
proof -
  obtain j where j: "16 \<le> j" and u: "ulp32 x = 1 / 2 ^ j"
    using ulp32_small [OF assms(2)] by blast
  have "(2::real) ^ j = 2 ^ ((j - 16) + 16)"
    using j by simp
  also have "\<dots> = 2 ^ (j - 16) * 2 ^ 16"
    by (rule power_add)
  finally have p: "(2::real) ^ j / 65536 = 2 ^ (j - 16)"
    by simp
  have "(1::real) \<le> 2 ^ (j - 16)"
    by simp
  then have q: "(1::real) \<le> 2 ^ j / 65536"
    using p by simp
  have "x * 2 ^ j \<le> (of_int b - 1 / 65536) * 2 ^ j"
    using assms(3) by simp
  also have "\<dots> = of_int b * 2 ^ j - 2 ^ j / 65536"
    by (simp add: algebra_simps)
  also have "\<dots> \<le> of_int b * 2 ^ j - 1"
    using q by simp
  finally have "x * 2 ^ j \<le> of_int (b * 2 ^ j - 1)"
    by simp
  then have "rne (x * 2 ^ j) \<le> b * 2 ^ j - 1"
    by (rule rne_le)
  then have "rne (x * 2 ^ j) < b * 2 ^ j"
    by simp
  then have "(of_int (rne (x * 2 ^ j)) :: real) < of_int (b * 2 ^ j)"
    by (simp only: of_int_less_iff)
  then have "(of_int (rne (x * 2 ^ j)) :: real) < of_int b * 2 ^ j"
    by simp
  then show ?thesis
    unfolding fl32_pos [OF assms(1) u] by (simp add: pos_divide_less_eq)
qed

section \<open>Basic facts\<close>

lemma updateTelemetry_fields [simp]:
  "leftMotor (updateTelemetry now s) = leftMotor s"
  "rightMotor (updateTelemetry now s) = rightMotor s"
  "smoothEnabled (updateTelemetry now s) = smoothEnabled s"
  "lastAccelUpdateTime (updateTelemetry now s) = lastAccelUpdateTime s"
  "currentAccelStep (updateTelemetry now s) = currentAccelStep s"
  "totalAccelSteps (updateTelemetry now s) = totalAccelSteps s"
  "isAccelerating (updateTelemetry now s) = isAccelerating s"
  "leftTargetDirection (updateTelemetry now s) = leftTargetDirection s"
  "rightTargetDirection (updateTelemetry now s) = rightTargetDirection s"
  "leftTargetPower (updateTelemetry now s) = leftTargetPower s"
  "rightTargetPower (updateTelemetry now s) = rightTargetPower s"
  by (simp_all add: updateTelemetry_def Let_def)

lemma Motor_forward_fields [simp]:
  "m_direction (Motor_forward pw m) = MOTOR_FORWARD"
  "m_power (Motor_forward pw m) = pw"
  "m_calibration (Motor_forward pw m) = m_calibration m"
  "m_sink (Motor_forward pw m) = m_sink m @ [(uint8_of_float (fmul_u8 pw (m_calibration m)), 0)]"
  "m_pins (Motor_forward pw m) =
     m_pins m @ [(uint8_of_float (fmul_u8 pw (m_calibration m)), m_pinBackward m),
                 (uint8_of_float (fmul_u8 pw (m_calibration m)), 0)]"
  "m_pinForward (Motor_forward pw m) = uint8_of_float (fmul_u8 pw (m_calibration m))"
  "m_pinBackward (Motor_forward pw m) = 0"
  by (simp_all add: Motor_forward_def applyPower_def analogWriteForward_def analogWriteBackward_def
        Let_def)

lemma Motor_backward_fields [simp]:
  "m_direction (Motor_backward pw m) = MOTOR_BACKWARD"
  "m_power (Motor_backward pw m) = pw"
  "m_calibration (Motor_backward pw m) = m_calibration m"
  "m_sink (Motor_backward pw m) = m_sink m @ [(0, uint8_of_float (fmul_u8 pw (m_calibration m)))]"
  "m_pins (Motor_backward pw m) =
     m_pins m @ [(0, m_pinBackward m), (0, uint8_of_float (fmul_u8 pw (m_calibration m)))]"
  "m_pinForward (Motor_backward pw m) = 0"
  "m_pinBackward (Motor_backward pw m) = uint8_of_float (fmul_u8 pw (m_calibration m))"
  by (simp_all add: Motor_backward_def applyPower_def analogWriteForward_def analogWriteBackward_def
        Let_def)

lemma Motor_stop_fields [simp]:
  "m_direction (Motor_stop m) = MOTOR_STOPPED"
  "m_power (Motor_stop m) = 0"
  "m_calibration (Motor_stop m) = m_calibration m"
  "m_sink (Motor_stop m) = m_sink m @ [(0, 0)]"
  "m_pins (Motor_stop m) = m_pins m @ [(0, m_pinBackward m), (0, 0)]"
  "m_pinForward (Motor_stop m) = 0"
  "m_pinBackward (Motor_stop m) = 0"
  by (simp_all add: Motor_stop_def applyPower_def analogWriteForward_def analogWriteBackward_def
        Let_def)

lemma updateAcceleration_idle:
  "\<not> isAccelerating s \<or> \<not> smoothEnabled s \<Longrightarrow> updateAcceleration now s = s"
  by (auto simp add: updateAcceleration_def)

lemma updateAcceleration_no_step:
  "\<not> steps_now now s \<Longrightarrow> updateAcceleration now s = s"
  by (auto simp add: steps_now_def updateAcceleration_def)

lemma updateAcceleration_kept [simp]:
  "smoothEnabled (updateAcceleration now s) = smoothEnabled s"
  "totalAccelSteps (updateAcceleration now s) = totalAccelSteps s"
  "leftTargetDirection (updateAcceleration now s) = leftTargetDirection s"
  "rightTargetDirection (updateAcceleration now s) = rightTargetDirection s"
  "leftTargetPower (updateAcceleration now s) = leftTargetPower s"
  "rightTargetPower (updateAcceleration now s) = rightTargetPower s"
  by (simp_all add: updateAcceleration_def Let_def)

lemma updateAcceleration_step_counters:
  assumes "steps_now now s"
  shows "currentAccelStep (updateAcceleration now s) = currentAccelStep s + 1"
    and "lastAccelUpdateTime (updateAcceleration now s) = now"
    and "isAccelerating (updateAcceleration now s) = (\<not> currentAccelStep s + 1 \<ge> totalAccelSteps s)"
  using assms by (simp_all add: steps_now_def updateAcceleration_def Let_def)

lemma updateAcceleration_step_left:
  assumes "steps_now now s"
  shows "leftMotor (updateAcceleration now s) =
           (if leftTargetDirection s = MOTOR_STOPPED then leftMotor s
            else if leftTargetDirection s = MOTOR_FORWARD
            then Motor_forward (stepPower s (leftTargetPower s)) (leftMotor s)
            else Motor_backward (stepPower s (leftTargetPower s)) (leftMotor s))"
  using assms by (simp add: steps_now_def updateAcceleration_def stepPower_def Let_def)

lemma updateAcceleration_step_right:
  assumes "steps_now now s"
  shows "rightMotor (updateAcceleration now s) =
           (if rightTargetDirection s = MOTOR_STOPPED then rightMotor s
            else if rightTargetDirection s = MOTOR_FORWARD
            then Motor_forward (stepPower s (rightTargetPower s)) (rightMotor s)
            else Motor_backward (stepPower s (rightTargetPower s)) (rightMotor s))"
  using assms by (simp add: steps_now_def updateAcceleration_def stepPower_def Let_def)


lemma Motor_setCalibration_fields [simp]:
  "m_direction (Motor_setCalibration c m) = m_direction m"
  "m_power (Motor_setCalibration c m) = m_power m"
  "m_sink (Motor_setCalibration c m) = m_sink m"
  "m_pins (Motor_setCalibration c m) = m_pins m"
  "m_pinForward (Motor_setCalibration c m) = m_pinForward m"
  "m_pinBackward (Motor_setCalibration c m) = m_pinBackward m"
  by (simp_all add: Motor_setCalibration_def)

lemma polls_idle: "\<not> isAccelerating s \<Longrightarrow> polls ts s = s"
  by (induction ts) (simp_all add: updateAcceleration_idle)

lemma polls_right_idle:
  "rightTargetDirection s = MOTOR_STOPPED \<Longrightarrow> rightMotor (polls ts s) = rightMotor s"
proof (induction ts arbitrary: s)
  case Nil
  then show ?case by simp
next
  case (Cons t ts)
  have "rightMotor (updateAcceleration t s) = rightMotor s"
  proof (cases "steps_now t s")
    case True
    then show ?thesis using Cons.prems by (simp add: updateAcceleration_step_right)
  next
    case False
    then show ?thesis by (simp add: updateAcceleration_no_step)
  qed
  moreover have "rightTargetDirection (updateAcceleration t s) = MOTOR_STOPPED"
    using Cons.prems by simp
  ultimately show ?case
    using Cons.IH by simp
qed

lemma polls_left_idle:
  "leftTargetDirection s = MOTOR_STOPPED \<Longrightarrow> leftMotor (polls ts s) = leftMotor s"
proof (induction ts arbitrary: s)
  case Nil
  then show ?case by simp
next
  case (Cons t ts)
  have "leftMotor (updateAcceleration t s) = leftMotor s"
  proof (cases "steps_now t s")
    case True
    then show ?thesis using Cons.prems by (simp add: updateAcceleration_step_left)
  next
    case False
    then show ?thesis by (simp add: updateAcceleration_no_step)
  qed
  moreover have "leftTargetDirection (updateAcceleration t s) = MOTOR_STOPPED"
    using Cons.prems by simp
  ultimately show ?case
    using Cons.IH by simp
qed

lemma smooth_left_sets_right_idle:
  assumes "smoothEnabled s"
    and "op = smoothAccelerate \<or> op = smoothDecelerate \<or> op = smoothTransition"
  shows "rightTargetDirection (op LeftChannel d p params now s) = MOTOR_STOPPED"
    and "rightTargetPower (op LeftChannel d p params now s) = 0"
    and "rightMotor (op LeftChannel d p params now s) = rightMotor s"
  using assms
  by (auto simp add: smoothAccelerate_def smoothDecelerate_def smoothTransition_def
        setMotor_def getMotor_def Let_def)

lemma smooth_right_sets_left_idle:
  assumes "smoothEnabled s"
    and "op = smoothAccelerate \<or> op = smoothDecelerate \<or> op = smoothTransition"
  shows "leftTargetDirection (op RightChannel d p params now s) = MOTOR_STOPPED"
    and "leftTargetPower (op RightChannel d p params now s) = 0"
    and "leftMotor (op RightChannel d p params now s) = leftMotor s"
  using assms
  by (auto simp add: smoothAccelerate_def smoothDecelerate_def smoothTransition_def
        setMotor_def getMotor_def Let_def)

lemma smoothTransition_totalAccelSteps:
  "smoothEnabled s \<Longrightarrow> totalAccelSteps (smoothTransition ch d p params now s) = steps params"
  by (simp add: smoothTransition_def Let_def)

lemma smoothDecelerate_motors:
  "smoothEnabled s \<Longrightarrow> leftMotor (smoothDecelerate ch d p params now s) = leftMotor s"
  "smoothEnabled s \<Longrightarrow> rightMotor (smoothDecelerate ch d p params now s) = rightMotor s"
  "smoothEnabled s \<Longrightarrow> smoothEnabled (smoothDecelerate ch d p params now s)"
  by (simp_all add: smoothDecelerate_def Let_def)

lemma leftStop_kept [simp]:
  "rightMotor (leftStop now s) = rightMotor s"
  "smoothEnabled (leftStop now s) = smoothEnabled s"
  by (auto simp add: leftStop_def Let_def smoothDecelerate_def)

lemma rightStop_kept [simp]:
  "leftMotor (rightStop now s) = leftMotor s"
  "smoothEnabled (rightStop now s) = smoothEnabled s"
  by (auto simp add: rightStop_def Let_def smoothDecelerate_def)

lemma leftStop_smooth:
  "smoothEnabled s \<Longrightarrow> m_power (leftMotor s) > 0 \<Longrightarrow> leftMotor (leftStop now s) = leftMotor s"
  by (simp add: leftStop_def Let_def smoothDecelerate_motors)

lemma rightStop_smooth:
  "smoothEnabled s \<Longrightarrow> m_power (rightMotor s) > 0 \<Longrightarrow> rightMotor (rightStop now s) = rightMotor s"
  by (simp add: rightStop_def Let_def smoothDecelerate_motors)

lemma stop_fields:
  "leftMotor (stop now s) = leftMotor (leftStop now s)"
  "rightMotor (stop now s) = rightMotor (rightStop now (leftStop now s))"
  "isAccelerating (stop now s) = False"
  by (simp_all add: stop_def Let_def)

section \<open>Reversal safety on the smooth path\<close>


lemma one_side_zero_simps [simp]:
  "one_side_zero [] = True"
  "one_side_zero ((f, b) # xs) = ((f = 0 \<or> b = 0) \<and> one_side_zero xs)"
  "one_side_zero (xs @ ys) = (one_side_zero xs \<and> one_side_zero ys)"
  by (simp_all add: one_side_zero_def)






lemma engine_inv_updateTelemetry [simp]:
  "engine_inv (updateTelemetry now s) = engine_inv s"
  by (simp add: engine_inv_def)














section \<open>The first step of a ramp on the decelerate path\<close>

lemma smoothDecelerate_ramp:
  assumes "smoothEnabled s" and "pw \<noteq> 0"
  shows "steps_now now' (smoothDecelerate LeftChannel d pw defaultParams now s) =
           (\<not> now' - now < SMOOTH_ACCEL_DELAY)"
    and "leftTargetDirection (smoothDecelerate LeftChannel d pw defaultParams now s) = d"
    and "leftTargetPower (smoothDecelerate LeftChannel d pw defaultParams now s) = pw"
    and "currentAccelStep (smoothDecelerate LeftChannel d pw defaultParams now s) = 0"
    and "totalAccelSteps (smoothDecelerate LeftChannel d pw defaultParams now s) = 10"
  using assms
  by (simp_all add: smoothDecelerate_def steps_now_def Let_def defaultParams_def SMOOTH_ACCEL_STEPS_def)

section \<open>Facts about binary32 products\<close>

lemma fl32_zero [simp]: "fl32 0 = 0"
  by (simp add: fl32_def)

lemma unat_uint8_less: "unat (pw :: uint8) < 256"
  using unsigned_less [of pw, where ?'a = nat] by simp

lemma fl32_product_bounds:
  assumes "n < 256" and "0 \<le> c" and "c \<le> 1"
  shows "of_int \<lfloor>real n * c\<rfloor> \<le> fl32 (real n * c)"
    and "fl32 (real n * c) \<le> of_int (\<lfloor>real n * c\<rfloor> + 1)"
    and "0 \<le> fl32 (real n * c)"
    and "fl32 (real n * c) \<le> real n"
proof -
  let ?x = "real n * c"
  have x0: "0 \<le> ?x"
    using assms(2) by simp
  have "?x \<le> real n * 1"
    using assms(3) by (intro mult_left_mono) simp_all
  then have xn: "?x \<le> real n"
    by simp
  have x256: "?x < 256"
    using xn assms(1) by simp
  have lo: "of_int \<lfloor>?x\<rfloor> \<le> ?x"
    by (rule of_int_floor_le)
  have hi: "?x \<le> of_int (\<lfloor>?x\<rfloor> + 1)"
    using floor_correct [of ?x] by simp
  have nn: "?x \<le> of_int (int n)"
    using xn by simp
  have z: "of_int 0 \<le> ?x"
    using x0 by simp
  show "of_int \<lfloor>?x\<rfloor> \<le> fl32 ?x"
  proof (cases "?x = 0")
    case True
    show ?thesis unfolding True by simp
  next
    case False
    then have "0 < ?x" using x0 by (metis less_le)
    then show ?thesis using x256 lo by (rule fl32_ge_int)
  qed
  show "fl32 ?x \<le> of_int (\<lfloor>?x\<rfloor> + 1)"
  proof (cases "?x = 0")
    case True
    show ?thesis unfolding True by simp
  next
    case False
    then have "0 < ?x" using x0 by (metis less_le)
    then show ?thesis using x256 hi by (rule fl32_le_int)
  qed
  show "0 \<le> fl32 ?x"
  proof (cases "?x = 0")
    case True
    show ?thesis unfolding True by simp
  next
    case False
    then have "0 < ?x" using x0 by (metis less_le)
    then have "of_int 0 \<le> fl32 ?x" using x256 z by (rule fl32_ge_int)
    then show ?thesis by simp
  qed
  show "fl32 ?x \<le> real n"
  proof (cases "?x = 0")
    case True
    show ?thesis unfolding True by simp
  next
    case False
    then have "0 < ?x" using x0 by (metis less_le)
    then have "fl32 ?x \<le> of_int (int n)"
      using x256 nn by (rule fl32_le_int)
    then show ?thesis by simp
  qed
qed

lemma floor_fl32_tenth:
  assumes "n < 256"
  shows "\<lfloor>fl32 (real n * (13421773 / 134217728))\<rfloor> = int (n div 10)"
proof (cases "n = 0")
  case True
  then show ?thesis by simp
next
  case False
  let ?x = "real n * (13421773 / 134217728)"
  have p: "0 < ?x"
    using False by simp
  have x256: "?x < 256"
    using assms by simp
  have "n = 10 * (n div 10) + n mod 10"
    by simp
  then have "real n = real (10 * (n div 10) + n mod 10)"
    by (rule arg_cong)
  also have "\<dots> = 10 * real (n div 10) + real (n mod 10)"
    by (simp only: of_nat_add of_nat_mult of_nat_numeral)
  finally have dm: "real n = 10 * real (n div 10) + real (n mod 10)" .
  have "n mod 10 \<le> 9"
    using mod_less_divisor [of 10 n] by simp
  then have r: "real (n mod 10) \<le> 9"
    by (simp del: of_nat_mod)
  have r0: "0 \<le> real (n mod 10)"
    by (rule of_nat_0_le_iff)
  have "n div 10 \<le> 25"
    using assms by simp
  then have q: "real (n div 10) \<le> 25"
    by (simp del: of_nat_div)
  have lo: "of_int (int (n div 10)) \<le> ?x"
    using dm r0 by (simp del: of_nat_div of_nat_mod)
  have hi: "?x \<le> of_int (int (n div 10) + 1) - 1 / 65536"
    using dm r q by (simp del: of_nat_div of_nat_mod)
  have a: "of_int (int (n div 10)) \<le> fl32 ?x"
    using p x256 lo by (rule fl32_ge_int)
  have b: "fl32 ?x < of_int (int (n div 10) + 1)"
    using p x256 hi by (rule fl32_less_int)
  show ?thesis
    using a b by (simp add: floor_eq_iff del: of_nat_div)
qed

lemma uint8_of_float_fmul:
  assumes "0 \<le> c" and "c \<le> 1"
  shows "uint8_of_float (fmul_u8 pw (Fin c)) = word_of_int \<lfloor>fl32 (real (unat pw) * c)\<rfloor>"
proof -
  have "0 \<le> fl32 (real (unat pw) * c)"
    using unat_uint8_less assms by (rule fl32_product_bounds(3))
  then have "\<not> fl32 (real (unat pw) * c) < 0"
    by (simp only: not_less)
  then show ?thesis
    unfolding fmul_u8_def uint8_of_float_def by (simp del: of_nat_unat)
qed

lemma tenth_float: "fdiv_u8 1 10 = Fin (13421773 / 134217728)"
  by code_simp

lemma fmul_tenth:
  "unat (uint8_of_float (fmul_u8 pw (Fin (13421773 / 134217728)))) = unat pw div 10"
proof -
  have "uint8_of_float (fmul_u8 pw (Fin (13421773 / 134217728))) =
          word_of_int \<lfloor>fl32 (real (unat pw) * (13421773 / 134217728))\<rfloor>"
    by (rule uint8_of_float_fmul) simp_all
  also have "\<dots> = word_of_int (int (unat pw div 10))"
    by (simp only: floor_fl32_tenth [OF unat_uint8_less])
  finally have eq: "uint8_of_float (fmul_u8 pw (Fin (13421773 / 134217728))) = word_of_nat (unat pw div 10)"
    by (simp del: of_nat_div)
  have "unat pw div 10 < 2 ^ LENGTH(8)"
    using unat_uint8_less [of pw] by simp
  then show ?thesis
    unfolding eq by (simp add: unat_of_nat take_bit_nat_eq_self del: of_nat_div)
qed


section \<open>The claims\<close>

text \<open>
  C1 (the code departs from it). Claim: if \<open>stop()\<close> is invoked while a ramp is in progress,
  then right after the call both motors have power 0 and direction Stopped, the ramp flag
  is false, and later polls change nothing. The code: with smoothing enabled, \<open>stop()\<close>
  leaves every motor whose power is not 0 exactly as it was (direction, power and sink
  untouched), clears the ramp flag, and every later poll is a no-op, so the motor keeps
  running.
\<close>

theorem stop_leaves_moving_motor:
  assumes "smoothEnabled s"
  shows "(m_power (leftMotor s) > 0 \<longrightarrow> leftMotor (stop now s) = leftMotor s) \<and>
         (m_power (rightMotor s) > 0 \<longrightarrow> rightMotor (stop now s) = rightMotor s) \<and>
         \<not> isAccelerating (stop now s) \<and>
         polls ts (stop now s) = stop now s"
  using assms
  by (simp add: stop_fields leftStop_smooth rightStop_smooth polls_idle)

theorem stop_leaves_moving_motor_witness:
  "smoothEnabled ramping \<and> isAccelerating ramping \<and> m_power (leftMotor ramping) > 0 \<and>
   m_power (leftMotor (stop 30 ramping)) = 20 \<and>
   m_direction (leftMotor (stop 30 ramping)) = MOTOR_FORWARD \<and>
   \<not> isAccelerating (stop 30 ramping) \<and>
   m_power (leftMotor (polls [50, 70, 90] (stop 30 ramping))) = 20"
proof -
  have f: "let s = ramping in
      smoothEnabled s \<and> isAccelerating s \<and> m_power (leftMotor s) > 0 \<and>
      m_power (leftMotor s) = 20 \<and> m_direction (leftMotor s) = MOTOR_FORWARD"
    by code_simp
  have h: "smoothEnabled ramping"
    and a: "isAccelerating ramping"
    and p: "m_power (leftMotor ramping) > 0"
    and v: "m_power (leftMotor ramping) = 20" "m_direction (leftMotor ramping) = MOTOR_FORWARD"
    using f unfolding Let_def by blast+
  have t: "leftMotor (stop 30 ramping) = leftMotor ramping \<and> \<not> isAccelerating (stop 30 ramping) \<and>
           polls [50, 70, 90] (stop 30 ramping) = stop 30 ramping"
    using stop_leaves_moving_motor [OF h, of 30 "[50, 70, 90]"] p by blast
  show ?thesis
    using h a p v t by simp
qed

text \<open>
  C2 (the code departs from it). Claim: after a smooth direction change the total step count
  is the default plus 2. The code: the two steps added for the pause are overwritten by
  the assignment of \<open>params.steps\<close> that follows, so the count is the default, 10.
\<close>

theorem direction_change_totalAccelSteps:
  assumes "smoothEnabled s"
  shows "(m_direction (leftMotor s) = MOTOR_FORWARD \<longrightarrow>
            totalAccelSteps (leftBackward pw True now s) = SMOOTH_ACCEL_STEPS) \<and>
         (m_direction (leftMotor s) = MOTOR_BACKWARD \<longrightarrow>
            totalAccelSteps (leftForward pw True now s) = SMOOTH_ACCEL_STEPS) \<and>
         (m_direction (rightMotor s) = MOTOR_FORWARD \<longrightarrow>
            totalAccelSteps (rightBackward pw True now s) = SMOOTH_ACCEL_STEPS) \<and>
         (m_direction (rightMotor s) = MOTOR_BACKWARD \<longrightarrow>
            totalAccelSteps (rightForward pw True now s) = SMOOTH_ACCEL_STEPS)"
  using assms
  by (simp add: leftBackward_def leftForward_def rightBackward_def rightForward_def Let_def
        smoothTransition_totalAccelSteps defaultParams_def)

theorem direction_change_totalAccelSteps_witness:
  "smoothEnabled movingForward \<and> m_direction (leftMotor movingForward) = MOTOR_FORWARD \<and>
   totalAccelSteps (leftBackward 100 True 10 movingForward) = 10 \<and>
   m_direction (leftMotor (leftBackward 100 True 10 movingForward)) = MOTOR_STOPPED \<and>
   isAccelerating (leftBackward 100 True 10 movingForward)"
proof -
  have f: "let s = movingForward in
      smoothEnabled s \<and> m_direction (leftMotor s) = MOTOR_FORWARD"
    by code_simp
  have h: "smoothEnabled movingForward"
    and d: "m_direction (leftMotor movingForward) = MOTOR_FORWARD"
    using f unfolding Let_def by blast+
  have t: "totalAccelSteps (leftBackward 100 True 10 movingForward) = 10"
    using direction_change_totalAccelSteps [OF h, of 100 10] d by (simp add: SMOOTH_ACCEL_STEPS_def)
  have g: "let s = leftBackward 100 True 10 movingForward in
      m_direction (leftMotor s) = MOTOR_STOPPED \<and> isAccelerating s"
    by code_simp
  have r: "m_direction (leftMotor (leftBackward 100 True 10 movingForward)) = MOTOR_STOPPED"
    and a: "isAccelerating (leftBackward 100 True 10 movingForward)"
    using g unfolding Let_def by blast+
  show ?thesis
    using h d t r a by blast
qed



text \<open>
  Off the smooth path the pins themselves can hold two nonzero duties: \<open>applyPower\<close>
  writes the forward pin first, so an immediate change from Backward to Forward leaves
  both pins at 100 until the backward pin is written.
\<close>

lemma immediate_reversal_pins:
  "m_pins (leftMotor (run [(0, LeftBackward 100 False), (10, LeftForward 100 False)] powerUp)) =
     [(0, 0), (0, 0), (0, 0), (0, 100), (100, 100), (100, 0)]"
  by code_simp


text \<open>
  C4. On the poll whose incremented step counter reaches or exceeds the total, each channel
  whose target direction is not Stopped is driven with exactly its target direction and
  target power (the sink receives the calibrated target), and the ramp flag is cleared.
\<close>

theorem updateAcceleration_final_step:
  assumes "isAccelerating s" and "smoothEnabled s"
    and "\<not> now - lastAccelUpdateTime s < SMOOTH_ACCEL_DELAY"
    and "currentAccelStep s + 1 \<ge> totalAccelSteps s"
  shows "\<not> isAccelerating (updateAcceleration now s) \<and>
         (leftTargetDirection s \<noteq> MOTOR_STOPPED \<longrightarrow>
            m_direction (leftMotor (updateAcceleration now s)) = leftTargetDirection s \<and>
            m_power (leftMotor (updateAcceleration now s)) = leftTargetPower s \<and>
            m_sink (leftMotor (updateAcceleration now s)) = m_sink (leftMotor s) @
              [let c = uint8_of_float (fmul_u8 (leftTargetPower s) (m_calibration (leftMotor s)))
               in if leftTargetDirection s = MOTOR_FORWARD then (c, 0) else (0, c)]) \<and>
         (rightTargetDirection s \<noteq> MOTOR_STOPPED \<longrightarrow>
            m_direction (rightMotor (updateAcceleration now s)) = rightTargetDirection s \<and>
            m_power (rightMotor (updateAcceleration now s)) = rightTargetPower s \<and>
            m_sink (rightMotor (updateAcceleration now s)) = m_sink (rightMotor s) @
              [let c = uint8_of_float (fmul_u8 (rightTargetPower s) (m_calibration (rightMotor s)))
               in if rightTargetDirection s = MOTOR_FORWARD then (c, 0) else (0, c)])"
proof -
  have st: "steps_now now s"
    using assms by (simp add: steps_now_def)
  have sp: "stepPower s p = p" for p
    using assms(4) by (simp add: stepPower_def)
  have acc: "\<not> isAccelerating (updateAcceleration now s)"
    using updateAcceleration_step_counters(3) [OF st] assms(4) by simp
  have l: "leftTargetDirection s \<noteq> MOTOR_STOPPED \<longrightarrow>
            m_direction (leftMotor (updateAcceleration now s)) = leftTargetDirection s \<and>
            m_power (leftMotor (updateAcceleration now s)) = leftTargetPower s \<and>
            m_sink (leftMotor (updateAcceleration now s)) = m_sink (leftMotor s) @
              [let c = uint8_of_float (fmul_u8 (leftTargetPower s) (m_calibration (leftMotor s)))
               in if leftTargetDirection s = MOTOR_FORWARD then (c, 0) else (0, c)]"
    by (cases "leftTargetDirection s") (simp_all add: updateAcceleration_step_left [OF st] sp)
  have r: "rightTargetDirection s \<noteq> MOTOR_STOPPED \<longrightarrow>
            m_direction (rightMotor (updateAcceleration now s)) = rightTargetDirection s \<and>
            m_power (rightMotor (updateAcceleration now s)) = rightTargetPower s \<and>
            m_sink (rightMotor (updateAcceleration now s)) = m_sink (rightMotor s) @
              [let c = uint8_of_float (fmul_u8 (rightTargetPower s) (m_calibration (rightMotor s)))
               in if rightTargetDirection s = MOTOR_FORWARD then (c, 0) else (0, c)]"
    by (cases "rightTargetDirection s") (simp_all add: updateAcceleration_step_right [OF st] sp)
  show ?thesis
    using acc l r by blast
qed

theorem updateAcceleration_final_step_witness:
  "isAccelerating lastStep \<and> smoothEnabled lastStep \<and>
   \<not> 200 - lastAccelUpdateTime lastStep < SMOOTH_ACCEL_DELAY \<and>
   currentAccelStep lastStep + 1 \<ge> totalAccelSteps lastStep \<and>
   leftTargetDirection lastStep = MOTOR_FORWARD \<and>
   m_power (leftMotor lastStep) = 180 \<and>
   \<not> isAccelerating (updateAcceleration 200 lastStep) \<and>
   m_direction (leftMotor (updateAcceleration 200 lastStep)) = MOTOR_FORWARD \<and>
   m_power (leftMotor (updateAcceleration 200 lastStep)) = 200 \<and>
   last (m_sink (leftMotor (updateAcceleration 200 lastStep))) = (200, 0)"
proof -
  have f: "let s = lastStep in
      isAccelerating s \<and> smoothEnabled s \<and> \<not> 200 - lastAccelUpdateTime s < SMOOTH_ACCEL_DELAY \<and>
      currentAccelStep s + 1 \<ge> totalAccelSteps s \<and> leftTargetDirection s = MOTOR_FORWARD \<and>
      leftTargetPower s = 200 \<and> m_calibration (leftMotor s) = Fin 1 \<and> m_power (leftMotor s) = 180"
    by code_simp
  have h1: "isAccelerating lastStep"
    and h2: "smoothEnabled lastStep"
    and h3: "\<not> 200 - lastAccelUpdateTime lastStep < SMOOTH_ACCEL_DELAY"
    and h4: "currentAccelStep lastStep + 1 \<ge> totalAccelSteps lastStep"
    and t: "leftTargetDirection lastStep = MOTOR_FORWARD" "leftTargetPower lastStep = 200"
      "m_calibration (leftMotor lastStep) = Fin 1" "m_power (leftMotor lastStep) = 180"
    using f unfolding Let_def by blast+
  have c: "uint8_of_float (fmul_u8 200 (Fin 1)) = 200"
    by code_simp
  show ?thesis
    using updateAcceleration_final_step [OF h1 h2 h3 h4] h1 h2 h3 h4 t c by simp
qed

text \<open>
  C5 (the code departs from it). Claim: in one ramp the polled powers never decrease on the
  accelerate path, never increase on the decelerate path, and end at the target. The code:
  every ramp interpolates from 0 up to the target; on the decelerate path (a smooth command
  for a nonzero power below the current one, same direction) the first step drops the motor
  to a tenth of the target, and the ramp then rises to the target.
\<close>

theorem decelerate_ramp_restarts_low:
  assumes "smoothEnabled s" and "m_direction (leftMotor s) = MOTOR_FORWARD"
    and "pw < m_power (leftMotor s)" and "pw \<noteq> 0"
    and "\<not> now' - now < SMOOTH_ACCEL_DELAY"
  shows "unat (m_power (leftMotor (updateAcceleration now' (leftForward pw True now s)))) = unat pw div 10 \<and>
         unat pw div 10 < unat pw \<and>
         m_direction (leftMotor (updateAcceleration now' (leftForward pw True now s))) = MOTOR_FORWARD"
proof -
  let ?s1 = "smoothDecelerate LeftChannel MOTOR_FORWARD pw defaultParams now s"
  have ng: "\<not> pw > m_power (leftMotor s)"
    using assms(3) by simp
  have lf: "leftForward pw True now s = updateTelemetry now ?s1"
    using assms(1,2,3) ng by (simp add: leftForward_def Let_def)
  have st: "steps_now now' (updateTelemetry now ?s1)"
    using smoothDecelerate_ramp(1) [OF assms(1,4), of now' MOTOR_FORWARD now] assms(5)
    by (simp add: steps_now_def)
  have sp: "stepPower (updateTelemetry now ?s1) pw =
              uint8_of_float (fmul_u8 pw (Fin (13421773 / 134217728)))"
    by (simp add: stepPower_def smoothDecelerate_ramp [OF assms(1,4)] word_le_nat_alt tenth_float)
  have "leftMotor (updateAcceleration now' (updateTelemetry now ?s1)) =
          Motor_forward (uint8_of_float (fmul_u8 pw (Fin (13421773 / 134217728))))
            (leftMotor (updateTelemetry now ?s1))"
    using sp by (simp add: updateAcceleration_step_left [OF st] smoothDecelerate_ramp [OF assms(1,4)])
  then have "unat (m_power (leftMotor (updateAcceleration now' (leftForward pw True now s)))) = unat pw div 10"
    and "m_direction (leftMotor (updateAcceleration now' (leftForward pw True now s))) = MOTOR_FORWARD"
    by (simp_all add: lf fmul_tenth)
  moreover have "unat pw div 10 < unat pw"
    using assms(4) by (simp add: unat_gt_0)
  ultimately show ?thesis
    by blast
qed

theorem decelerate_ramp_restarts_low_witness:
  "smoothEnabled cruising \<and> m_direction (leftMotor cruising) = MOTOR_FORWARD \<and>
   m_power (leftMotor cruising) = 200 \<and> (100 :: uint8) < m_power (leftMotor cruising) \<and>
   \<not> (20 :: ulong) - 0 < SMOOTH_ACCEL_DELAY \<and>
   unat (m_power (leftMotor (updateAcceleration 20 (leftForward 100 True 0 cruising)))) = 10 \<and>
   leftPowers [20, 40, 60, 80, 100, 120, 140, 160, 180, 200] (leftForward 100 True 0 cruising) =
     [10, 20, 30, 40, 50, 60, 70, 80, 90, 100]"
proof -
  have f: "let s = cruising in
      smoothEnabled s \<and> m_direction (leftMotor s) = MOTOR_FORWARD \<and> m_power (leftMotor s) = 200"
    by code_simp
  have h1: "smoothEnabled cruising"
    and h2: "m_direction (leftMotor cruising) = MOTOR_FORWARD"
    and p: "m_power (leftMotor cruising) = 200"
    using f unfolding Let_def by blast+
  have h3: "(100 :: uint8) < m_power (leftMotor cruising)"
    unfolding p by simp
  have h4: "(100 :: uint8) \<noteq> 0"
    by simp
  have h5: "\<not> (20 :: ulong) - 0 < SMOOTH_ACCEL_DELAY"
    by (simp add: SMOOTH_ACCEL_DELAY_def)
  have t: "unat (m_power (leftMotor (updateAcceleration 20 (leftForward 100 True 0 cruising)))) = 10"
    using decelerate_ramp_restarts_low [OF h1 h2 h3 h4 h5] by simp
  have l: "leftPowers [20, 40, 60, 80, 100, 120, 140, 160, 180, 200] (leftForward 100 True 0 cruising) =
     [10, 20, 30, 40, 50, 60, 70, 80, 90, 100]"
    by code_simp
  show ?thesis
    using h1 h2 p h3 h5 t l by blast
qed

text \<open>
  C6 (amended). For a calibration \<open>c\<close> in [0, 1] and a power \<open>p\<close>, the magnitude that
  \<open>Motor::forward\<close> and \<open>Motor::backward\<close> send to the sink is the binary32 product of
  \<open>p\<close> and \<open>c\<close> with its fraction discarded. It lies in [0, p]; it is \<open>floor (p * c)\<close> or
  one more, and it is \<open>floor (p * c)\<close> whenever the product is a binary32 value, as for
  calibration 0.5 and power 201 (magnitude 100).
\<close>

theorem calibrated_magnitude:
  assumes "m_calibration m = Fin c" and "0 \<le> c" and "c \<le> 1"
  shows "m_sink (Motor_forward pw m) =
           m_sink m @ [(word_of_int \<lfloor>fl32 (real (unat pw) * c)\<rfloor>, 0)] \<and>
         m_sink (Motor_backward pw m) =
           m_sink m @ [(0, word_of_int \<lfloor>fl32 (real (unat pw) * c)\<rfloor>)] \<and>
         m_pinForward (Motor_forward pw m) = word_of_int \<lfloor>fl32 (real (unat pw) * c)\<rfloor> \<and>
         m_pinBackward (Motor_backward pw m) = word_of_int \<lfloor>fl32 (real (unat pw) * c)\<rfloor> \<and>
         0 \<le> \<lfloor>fl32 (real (unat pw) * c)\<rfloor> \<and>
         \<lfloor>fl32 (real (unat pw) * c)\<rfloor> \<le> int (unat pw) \<and>
         \<lfloor>real (unat pw) * c\<rfloor> \<le> \<lfloor>fl32 (real (unat pw) * c)\<rfloor> \<and>
         \<lfloor>fl32 (real (unat pw) * c)\<rfloor> \<le> \<lfloor>real (unat pw) * c\<rfloor> + 1 \<and>
         (fl32 (real (unat pw) * c) = real (unat pw) * c \<longrightarrow>
            \<lfloor>fl32 (real (unat pw) * c)\<rfloor> = \<lfloor>real (unat pw) * c\<rfloor>)"
proof -
  let ?x = "real (unat pw) * c"
  note b = fl32_product_bounds [OF unat_uint8_less assms(2,3), of pw]
  have u: "uint8_of_float (fmul_u8 pw (m_calibration m)) = word_of_int \<lfloor>fl32 ?x\<rfloor>"
    unfolding assms(1) using assms(2,3) by (rule uint8_of_float_fmul)
  have s1: "m_sink (Motor_forward pw m) = m_sink m @ [(word_of_int \<lfloor>fl32 ?x\<rfloor>, 0)]"
    and s2: "m_sink (Motor_backward pw m) = m_sink m @ [(0, word_of_int \<lfloor>fl32 ?x\<rfloor>)]"
    and s3: "m_pinForward (Motor_forward pw m) = word_of_int \<lfloor>fl32 ?x\<rfloor>"
    and s4: "m_pinBackward (Motor_backward pw m) = word_of_int \<lfloor>fl32 ?x\<rfloor>"
    by (simp_all only: Motor_forward_fields Motor_backward_fields u)
  have r1: "0 \<le> \<lfloor>fl32 ?x\<rfloor>"
    using b(3) by (simp only: zero_le_floor)
  have "\<lfloor>fl32 ?x\<rfloor> \<le> \<lfloor>real (unat pw)\<rfloor>"
    using b(4) by (rule floor_mono)
  then have r2: "\<lfloor>fl32 ?x\<rfloor> \<le> int (unat pw)"
    by (simp only: floor_of_nat)
  have r3: "\<lfloor>?x\<rfloor> \<le> \<lfloor>fl32 ?x\<rfloor>"
    using b(1) by (simp only: le_floor_iff)
  have "\<lfloor>fl32 ?x\<rfloor> \<le> \<lfloor>(of_int (\<lfloor>?x\<rfloor> + 1) :: real)\<rfloor>"
    using b(2) by (rule floor_mono)
  then have r4: "\<lfloor>fl32 ?x\<rfloor> \<le> \<lfloor>?x\<rfloor> + 1"
    by (simp only: floor_of_int)
  have r5: "fl32 ?x = ?x \<longrightarrow> \<lfloor>fl32 ?x\<rfloor> = \<lfloor>?x\<rfloor>"
  proof
    assume "fl32 ?x = ?x"
    then show "\<lfloor>fl32 ?x\<rfloor> = \<lfloor>?x\<rfloor>"
      by (rule arg_cong)
  qed
  show ?thesis
    using s1 s2 s3 s4 r1 r2 r3 r4 r5 by blast
qed

text \<open>
  The claim as stated takes the floor of the exact product: with the binary32 calibration
  \<open>16693747 / 2 ^ 24\<close> and power 201 the exact product is just below 200, its binary32
  rounding is 200, and the sink receives 200. The same happens at power 200 with the
  calibration that one step down from 1.0 stores: the sink receives 190, the floor is 189.
\<close>

theorem calibrated_magnitude_counterexample:
  "m_calibration motorOdd = Fin (16693747 / 16777216) \<and>
   fl32 (16693747 / 16777216) = 16693747 / 16777216 \<and>
   m_sink (Motor_forward 201 motorOdd) = [(0, 0), (200, 0)] \<and>
   \<lfloor>(201 :: real) * (16693747 / 16777216)\<rfloor> = 199 \<and>
   m_calibration motorStep = Fin (15938355 / 16777216) \<and>
   m_sink (Motor_forward 200 motorStep) = [(0, 0), (190, 0)] \<and>
   \<lfloor>(200 :: real) * (15938355 / 16777216)\<rfloor> = 189"
  by code_simp

theorem calibrated_magnitude_witness:
  "m_calibration motorHalf = Fin (1 / 2) \<and> (0 :: real) \<le> 1 / 2 \<and> (1 / 2 :: real) \<le> 1 \<and>
   fl32 (1 / 2) = 1 / 2 \<and> fl32 (201 / 2) = 201 / 2 \<and>
   m_sink (Motor_forward 201 motorHalf) = [(0, 0), (100, 0)] \<and>
   m_sink (Motor_backward 201 motorHalf) = [(0, 0), (0, 100)] \<and>
   m_pinForward (Motor_forward 201 motorHalf) = 100"
proof -
  have f: "let m = motorHalf in m_calibration m = Fin (1 / 2) \<and> m_sink m = [(0, 0)]"
    by code_simp
  have c: "m_calibration motorHalf = Fin (1 / 2)"
    and k: "m_sink motorHalf = [(0, 0)]"
    using f unfolding Let_def by blast+
  have h1: "(0 :: real) \<le> 1 / 2" and h2: "(1 / 2 :: real) \<le> 1"
    by simp_all
  have fl: "fl32 (201 / 2) = 201 / 2"
    by code_simp
  have fh: "fl32 (1 / 2) = 1 / 2"
    by code_simp
  have a: "real (unat (201 :: uint8)) * (1 / 2) = 201 / 2"
    by simp
  have b: "\<lfloor>(201 / 2 :: real)\<rfloor> = 100"
    by simp
  have w: "(word_of_int \<lfloor>fl32 (real (unat (201 :: uint8)) * (1 / 2))\<rfloor> :: uint8) = 100"
    unfolding a fl b by simp
  note t = calibrated_magnitude [OF c h1 h2, of 201]
  have s1: "m_sink (Motor_forward 201 motorHalf) = [(0, 0), (100, 0)]"
    using t unfolding w k by simp
  have s2: "m_sink (Motor_backward 201 motorHalf) = [(0, 0), (0, 100)]"
    using t unfolding w k by simp
  have s3: "m_pinForward (Motor_forward 201 motorHalf) = 100"
    using t unfolding w by blast
  show ?thesis
    using c h1 h2 fh fl s1 s2 s3 by blast
qed

text \<open>
  C7. \<open>Telemetry::send\<close> emits a record if and only if telemetry is enabled, the interval
  has elapsed since the last send and the dirty flag is set. When it emits, the record is
  the stored snapshot, the dirty flag is cleared and the send time recorded, so a second
  send emits nothing; otherwise it emits nothing and changes no state.
\<close>

theorem Telemetry_send_gating:
  "(fst (Telemetry_send now t) \<noteq> None \<longleftrightarrow>
      (t_enabled t \<and> now - t_lastSendTime t \<ge> t_interval t \<and> t_dataChanged t)) \<and>
   (t_enabled t \<and> now - t_lastSendTime t \<ge> t_interval t \<and> t_dataChanged t \<longrightarrow>
      Telemetry_send now t = (Some (t_data t), t\<lparr> t_lastSendTime := now, t_dataChanged := False \<rparr>) \<and>
      fst (Telemetry_send now' (snd (Telemetry_send now t))) = None) \<and>
   (\<not> (t_enabled t \<and> now - t_lastSendTime t \<ge> t_interval t \<and> t_dataChanged t) \<longrightarrow>
      Telemetry_send now t = (None, t))"
  by (simp add: Telemetry_send_def Let_def)

theorem Telemetry_send_gating_witness:
  "t_enabled tele0 \<and> 1000 - t_lastSendTime tele0 \<ge> t_interval tele0 \<and> t_dataChanged tele0 \<and>
   fst (Telemetry_send 1000 tele0) = Some (t_data tele0) \<and>
   leftMotorPower (t_data tele0) = 200 \<and>
   \<not> t_dataChanged (snd (Telemetry_send 1000 tele0)) \<and>
   t_lastSendTime (snd (Telemetry_send 1000 tele0)) = 1000 \<and>
   fst (Telemetry_send 2000 (snd (Telemetry_send 1000 tele0))) = None \<and>
   \<not> (t_enabled tele0 \<and> 999 - t_lastSendTime tele0 \<ge> t_interval tele0 \<and> t_dataChanged tele0) \<and>
   Telemetry_send 999 tele0 = (None, tele0)"
proof -
  have g: "let t = tele0 in
      (t_enabled t \<and> 1000 - t_lastSendTime t \<ge> t_interval t \<and> t_dataChanged t) \<and>
      \<not> (t_enabled t \<and> 999 - t_lastSendTime t \<ge> t_interval t \<and> t_dataChanged t) \<and>
      leftMotorPower (t_data t) = 200"
    by code_simp
  have h: "t_enabled tele0 \<and> 1000 - t_lastSendTime tele0 \<ge> t_interval tele0 \<and> t_dataChanged tele0"
    and n: "\<not> (t_enabled tele0 \<and> 999 - t_lastSendTime tele0 \<ge> t_interval tele0 \<and> t_dataChanged tele0)"
    and d: "leftMotorPower (t_data tele0) = 200"
    using g unfolding Let_def by blast+
  have e: "Telemetry_send 1000 tele0 =
             (Some (t_data tele0), tele0\<lparr> t_lastSendTime := 1000, t_dataChanged := False \<rparr>) \<and>
           fst (Telemetry_send 2000 (snd (Telemetry_send 1000 tele0))) = None"
    using Telemetry_send_gating [of 1000 tele0 2000] h by blast
  have f: "Telemetry_send 999 tele0 = (None, tele0)"
    using Telemetry_send_gating [of 999 tele0] n by blast
  have e1: "fst (Telemetry_send 1000 tele0) = Some (t_data tele0)"
    using e by simp
  have e2: "\<not> t_dataChanged (snd (Telemetry_send 1000 tele0))"
    using e by simp
  have e3: "t_lastSendTime (snd (Telemetry_send 1000 tele0)) = 1000"
    using e by simp
  have e4: "fst (Telemetry_send 2000 (snd (Telemetry_send 1000 tele0))) = None"
    using e by blast
  show ?thesis
    using h n d e1 e2 e3 e4 f by blast
qed

text \<open>
  C8 (amended). \<open>Telemetry::update\<close> with arguments equal to the stored snapshot's fields,
  no calibration being a not-a-number, changes nothing (snapshot, timestamp and dirty
  flag). An update that differs from the snapshot in some field stores its arguments,
  stamps the snapshot with the current time and raises the dirty flag. When neither
  calibration argument is a not-a-number, a second update with the same arguments is the
  identity: of two identical updates in a row only the first can raise the flag.
\<close>

theorem Telemetry_update_idempotent:
  "(leftMotorPower (t_data t) = lp \<and> rightMotorPower (t_data t) = rp \<and>
    leftMotorForward (t_data t) = lf \<and> rightMotorForward (t_data t) = rf \<and>
    leftCalibration (t_data t) = lc \<and> rightCalibration (t_data t) = rc \<and>
    td_isAccelerating (t_data t) = ac \<and> td_smoothEnabled (t_data t) = sm \<and>
    lc \<noteq> NaN \<and> rc \<noteq> NaN \<longrightarrow>
      Telemetry_update lp rp lf rf lc rc ac sm now t = t) \<and>
   (\<not> (leftMotorPower (t_data t) = lp \<and> rightMotorPower (t_data t) = rp \<and>
       leftMotorForward (t_data t) = lf \<and> rightMotorForward (t_data t) = rf \<and>
       leftCalibration (t_data t) = lc \<and> rightCalibration (t_data t) = rc \<and>
       td_isAccelerating (t_data t) = ac \<and> td_smoothEnabled (t_data t) = sm) \<longrightarrow>
      t_dataChanged (Telemetry_update lp rp lf rf lc rc ac sm now t) \<and>
      timestamp (t_data (Telemetry_update lp rp lf rf lc rc ac sm now t)) = now \<and>
      leftMotorPower (t_data (Telemetry_update lp rp lf rf lc rc ac sm now t)) = lp \<and>
      rightMotorPower (t_data (Telemetry_update lp rp lf rf lc rc ac sm now t)) = rp \<and>
      leftMotorForward (t_data (Telemetry_update lp rp lf rf lc rc ac sm now t)) = lf \<and>
      rightMotorForward (t_data (Telemetry_update lp rp lf rf lc rc ac sm now t)) = rf \<and>
      leftCalibration (t_data (Telemetry_update lp rp lf rf lc rc ac sm now t)) = lc \<and>
      rightCalibration (t_data (Telemetry_update lp rp lf rf lc rc ac sm now t)) = rc \<and>
      td_isAccelerating (t_data (Telemetry_update lp rp lf rf lc rc ac sm now t)) = ac \<and>
      td_smoothEnabled (t_data (Telemetry_update lp rp lf rf lc rc ac sm now t)) = sm) \<and>
   (lc \<noteq> NaN \<and> rc \<noteq> NaN \<longrightarrow>
      Telemetry_update lp rp lf rf lc rc ac sm now2 (Telemetry_update lp rp lf rf lc rc ac sm now t) =
        Telemetry_update lp rp lf rf lc rc ac sm now t)"
proof -
  have ne: "fne a b \<longleftrightarrow> a = NaN \<or> b = NaN \<or> a \<noteq> b" for a b
    by (cases a; cases b) (simp_all add: fne_def)
  show ?thesis
    by (auto simp add: Telemetry_update_def ne)
qed

text \<open>
  The claim as stated has no exception for a not-a-number, which \<open>constrain\<close> lets through
  to the stored calibration: \<open>!=\<close> is then true of equal arguments, and the second of two
  identical updates stamps the snapshot again and raises the flag again, also after a send
  has cleared it.
\<close>

theorem Telemetry_update_nan_counterexample:
  "timestamp (t_data (Telemetry_update 0 0 True True NaN (Fin 1) False True 7 teleBegin)) = 7 \<and>
   timestamp (t_data (Telemetry_update 0 0 True True NaN (Fin 1) False True 99
      (Telemetry_update 0 0 True True NaN (Fin 1) False True 7 teleBegin))) = 99 \<and>
   \<not> t_dataChanged (snd (Telemetry_send 1000
      (Telemetry_update 0 0 True True NaN (Fin 1) False True 7 teleBegin))) \<and>
   t_dataChanged (Telemetry_update 0 0 True True NaN (Fin 1) False True 1500
      (snd (Telemetry_send 1000 (Telemetry_update 0 0 True True NaN (Fin 1) False True 7 teleBegin))))"
  by code_simp

theorem Telemetry_update_idempotent_witness:
  "\<not> (leftMotorPower (t_data teleBegin) = 200 \<and> rightMotorPower (t_data teleBegin) = 0 \<and>
      leftMotorForward (t_data teleBegin) = True \<and> rightMotorForward (t_data teleBegin) = True \<and>
      leftCalibration (t_data teleBegin) = Fin 1 \<and> rightCalibration (t_data teleBegin) = Fin 1 \<and>
      td_isAccelerating (t_data teleBegin) = False \<and> td_smoothEnabled (t_data teleBegin) = True) \<and>
   \<not> t_dataChanged teleBegin \<and>
   t_dataChanged tele0 \<and> timestamp (t_data tele0) = 7 \<and> leftMotorPower (t_data tele0) = 200 \<and>
   Fin 1 \<noteq> NaN \<and>
   Telemetry_update 200 0 True True (Fin 1) (Fin 1) False True 99 tele0 = tele0"
proof -
  have g: "let t = teleBegin in
      \<not> (leftMotorPower (t_data t) = 200 \<and> rightMotorPower (t_data t) = 0 \<and>
         leftMotorForward (t_data t) = True \<and> rightMotorForward (t_data t) = True \<and>
         leftCalibration (t_data t) = Fin 1 \<and> rightCalibration (t_data t) = Fin 1 \<and>
         td_isAccelerating (t_data t) = False \<and> td_smoothEnabled (t_data t) = True) \<and>
      \<not> t_dataChanged t"
    by code_simp
  have d: "\<not> (leftMotorPower (t_data teleBegin) = 200 \<and> rightMotorPower (t_data teleBegin) = 0 \<and>
      leftMotorForward (t_data teleBegin) = True \<and> rightMotorForward (t_data teleBegin) = True \<and>
      leftCalibration (t_data teleBegin) = Fin 1 \<and> rightCalibration (t_data teleBegin) = Fin 1 \<and>
      td_isAccelerating (t_data teleBegin) = False \<and> td_smoothEnabled (t_data teleBegin) = True)"
    and c: "\<not> t_dataChanged teleBegin"
    using g unfolding Let_def by blast+
  have n: "Fin 1 \<noteq> NaN"
    by simp
  have t0: "tele0 = Telemetry_update 200 0 True True (Fin 1) (Fin 1) False True 7 teleBegin"
    by (simp add: tele0_def teleBegin_def)
  note t = Telemetry_update_idempotent [of teleBegin 200 0 True True "Fin 1" "Fin 1" False True 7 99,
      folded t0]
  have r: "t_dataChanged tele0 \<and> timestamp (t_data tele0) = 7 \<and> leftMotorPower (t_data tele0) = 200"
    using t d by blast
  have i: "Telemetry_update 200 0 True True (Fin 1) (Fin 1) False True 99 tele0 = tele0"
    using t n by blast
  show ?thesis
    using d c r n i by blast
qed

text \<open>
  C9. The elapsed-time checks of the ramp stepper, of the telemetry publisher and of
  \<open>NonBlockingDelay::elapsed\<close> subtract the recorded reading from the current one as
  unsigned 32-bit words: when \<open>d\<close> milliseconds (fewer than \<open>2 ^ 32\<close>) have passed since
  the recorded reading, also across a wrap of the clock, each check compares exactly \<open>d\<close>
  with its delay or interval.
\<close>

theorem elapsed_unsigned_wraparound:
  fixes d :: nat
  assumes "d < 2 ^ 32"
  shows "(isAccelerating s \<and> smoothEnabled s \<longrightarrow>
            (updateAcceleration (lastAccelUpdateTime s + of_nat d) s = s) = (d < 20)) \<and>
         (t_enabled t \<and> t_dataChanged t \<longrightarrow>
            (fst (Telemetry_send (t_lastSendTime t + of_nat d) t) = None) = (d < unat (t_interval t))) \<and>
         (running nb \<longrightarrow>
            fst (NonBlockingDelay_elapsed (startTime nb + of_nat d) nb) = (unat (delayTime nb) \<le> d))"
proof (intro conjI impI)
  have u: "unat (of_nat d :: ulong) = d"
    using assms by (simp add: unat_of_nat take_bit_nat_eq_self)
  have lt: "((of_nat d :: ulong) < SMOOTH_ACCEL_DELAY) = (d < 20)"
    by (simp add: word_less_nat_alt u SMOOTH_ACCEL_DELAY_def)
  {
    assume a: "isAccelerating s \<and> smoothEnabled s"
    show "(updateAcceleration (lastAccelUpdateTime s + of_nat d) s = s) = (d < 20)"
    proof (cases "d < 20")
      case True
      then show ?thesis using a lt by (simp add: updateAcceleration_def)
    next
      case False
      have "currentAccelStep (updateAcceleration (lastAccelUpdateTime s + of_nat d) s) = currentAccelStep s + 1"
        using a lt False by (simp add: updateAcceleration_def Let_def)
      then have "updateAcceleration (lastAccelUpdateTime s + of_nat d) s \<noteq> s"
        by (metis add_cancel_right_right one_neq_zero)
      then show ?thesis using False by simp
    qed
  }
  {
    assume a: "t_enabled t \<and> t_dataChanged t"
    have "(t_interval t \<le> of_nat d) = (unat (t_interval t) \<le> d)"
      by (simp add: word_le_nat_alt u)
    then show "(fst (Telemetry_send (t_lastSendTime t + of_nat d) t) = None) = (d < unat (t_interval t))"
      using a by (auto simp add: Telemetry_send_def Let_def)
  }
  {
    assume a: "running nb"
    have "(delayTime nb \<le> of_nat d) = (unat (delayTime nb) \<le> d)"
      by (simp add: word_le_nat_alt u)
    then show "fst (NonBlockingDelay_elapsed (startTime nb + of_nat d) nb) = (unat (delayTime nb) \<le> d)"
      using a by (simp add: NonBlockingDelay_elapsed_def Let_def)
  }
qed

theorem elapsed_unsigned_wraparound_witness:
  "(25 :: nat) < 2 ^ 32 \<and> isAccelerating nearWrap \<and> smoothEnabled nearWrap \<and>
   lastAccelUpdateTime nearWrap = 4294967286 \<and>
   updateAcceleration 15 nearWrap \<noteq> nearWrap \<and>
   t_enabled teleNearWrap \<and> t_dataChanged teleNearWrap \<and> t_lastSendTime teleNearWrap = 4294967286 \<and>
   fst (Telemetry_send 15 teleNearWrap) \<noteq> None \<and>
   running delayNearWrap \<and> startTime delayNearWrap = 4294967286 \<and>
   fst (NonBlockingDelay_elapsed 15 delayNearWrap)"
proof -
  have d: "(25 :: nat) < 2 ^ 32" by simp
  have fa: "let s = nearWrap in
      isAccelerating s \<and> smoothEnabled s \<and> lastAccelUpdateTime s = 4294967286"
    by code_simp
  have a: "isAccelerating nearWrap \<and> smoothEnabled nearWrap"
    and l: "lastAccelUpdateTime nearWrap = 4294967286"
    using fa unfolding Let_def by blast+
  have n: "lastAccelUpdateTime nearWrap + of_nat 25 = 15"
    unfolding l by simp
  have fe: "let t = teleNearWrap in
      t_enabled t \<and> t_dataChanged t \<and> t_lastSendTime t = 4294967286 \<and> unat (t_interval t) = 25"
    by code_simp
  have e: "t_enabled teleNearWrap \<and> t_dataChanged teleNearWrap"
    and tl: "t_lastSendTime teleNearWrap = 4294967286" "unat (t_interval teleNearWrap) = 25"
    using fe unfolding Let_def by blast+
  have tn: "t_lastSendTime teleNearWrap + of_nat 25 = 15"
    unfolding tl by simp
  have fr: "let nb = delayNearWrap in
      running nb \<and> startTime nb = 4294967286 \<and> unat (delayTime nb) = 25"
    by code_simp
  have r: "running delayNearWrap"
    and rl: "startTime delayNearWrap = 4294967286" "unat (delayTime delayNearWrap) = 25"
    using fr unfolding Let_def by blast+
  have rn: "startTime delayNearWrap + of_nat 25 = 15"
    unfolding rl by simp
  note w = elapsed_unsigned_wraparound [OF d, of nearWrap teleNearWrap delayNearWrap]
  have "(updateAcceleration (lastAccelUpdateTime nearWrap + of_nat 25) nearWrap = nearWrap) = ((25 :: nat) < 20)"
    using w a by blast
  then have w1: "updateAcceleration 15 nearWrap \<noteq> nearWrap"
    unfolding n by simp
  have "(fst (Telemetry_send (t_lastSendTime teleNearWrap + of_nat 25) teleNearWrap) = None) =
          (25 < unat (t_interval teleNearWrap))"
    using w e by blast
  then have w2: "fst (Telemetry_send 15 teleNearWrap) \<noteq> None"
    unfolding tn by (simp add: tl)
  have "fst (NonBlockingDelay_elapsed (startTime delayNearWrap + of_nat 25) delayNearWrap) =
          (unat (delayTime delayNearWrap) \<le> 25)"
    using w r by blast
  then have w3: "fst (NonBlockingDelay_elapsed 15 delayNearWrap)"
    unfolding rn by (simp add: rl)
  show ?thesis
    using d a l e tl r rl w1 w2 w3 by blast
qed

text \<open>
  C10. Every smooth operation on one channel (with smoothing enabled) sets the other
  channel's ramp target to (Stopped, 0), and no later poll touches the other motor: it
  stays as the operation found it.
\<close>

theorem smooth_op_abandons_other_channel:
  assumes "smoothEnabled s"
    and "op = smoothAccelerate \<or> op = smoothDecelerate \<or> op = smoothTransition"
  shows "rightTargetDirection (op LeftChannel d p params now s) = MOTOR_STOPPED \<and>
         rightTargetPower (op LeftChannel d p params now s) = 0 \<and>
         rightMotor (polls ts (op LeftChannel d p params now s)) = rightMotor s \<and>
         leftTargetDirection (op RightChannel d p params now s) = MOTOR_STOPPED \<and>
         leftTargetPower (op RightChannel d p params now s) = 0 \<and>
         leftMotor (polls ts (op RightChannel d p params now s)) = leftMotor s"
  using smooth_left_sets_right_idle [OF assms] smooth_right_sets_left_idle [OF assms]
    polls_right_idle polls_left_idle
  by simp

theorem smooth_op_abandons_other_channel_witness:
  "smoothEnabled rightRamping \<and> isAccelerating rightRamping \<and>
   rightTargetDirection rightRamping = MOTOR_FORWARD \<and> rightTargetPower rightRamping = 200 \<and>
   m_power (rightMotor rightRamping) = 20 \<and>
   rightTargetDirection (smoothTransition LeftChannel MOTOR_FORWARD 100 defaultParams 25 rightRamping) = MOTOR_STOPPED \<and>
   rightTargetPower (smoothTransition LeftChannel MOTOR_FORWARD 100 defaultParams 25 rightRamping) = 0 \<and>
   m_power (rightMotor (polls [45, 65, 85, 105, 125, 145, 165, 185, 205, 225]
      (smoothTransition LeftChannel MOTOR_FORWARD 100 defaultParams 25 rightRamping))) = 20 \<and>
   m_direction (rightMotor (polls [45, 65, 85, 105, 125, 145, 165, 185, 205, 225]
      (smoothTransition LeftChannel MOTOR_FORWARD 100 defaultParams 25 rightRamping))) = MOTOR_FORWARD"
proof -
  have ff: "let s = rightRamping in
      smoothEnabled s \<and> isAccelerating s \<and> rightTargetDirection s = MOTOR_FORWARD \<and>
      rightTargetPower s = 200 \<and> m_power (rightMotor s) = 20 \<and>
      m_direction (rightMotor s) = MOTOR_FORWARD"
    by code_simp
  have h: "smoothEnabled rightRamping"
    and f: "isAccelerating rightRamping" "rightTargetDirection rightRamping = MOTOR_FORWARD"
      "rightTargetPower rightRamping = 200" "m_power (rightMotor rightRamping) = 20"
      "m_direction (rightMotor rightRamping) = MOTOR_FORWARD"
    using ff unfolding Let_def by blast+
  have o: "smoothTransition = smoothAccelerate \<or> smoothTransition = smoothDecelerate \<or>
           smoothTransition = smoothTransition" by simp
  show ?thesis
    using smooth_op_abandons_other_channel [OF h o, of MOTOR_FORWARD 100 defaultParams 25
        "[45, 65, 85, 105, 125, 145, 165, 185, 205, 225]"] h f
    by simp
qed

end
